theory Spec2Isabelle
  imports Main
begin

section \<open>The Git Graph View controller (src/gitGraphView.ts)\<close>

text \<open>
  The class \<open>GitGraphView\<close> sits between a webview panel and a set of collaborators
  (\<open>DataSource\<close>, \<open>ExtensionState\<close>, \<open>RepoManager\<close>, \<open>AvatarManager\<close>,
  \<open>RepoFileWatcher\<close>, the functions of \<open>utils\<close>). Only the class itself is among the
  sources, so the collaborators are parameters of the model: every call the class makes on
  one of them is written to a log of effects, in the order the class makes it, and what
  an awaited call settles with is given by an oracle that sees the callee, the arguments
  and the log so far. A call that the class does not await is taken to return. One
  invocation of a method or callback of the class runs from start to end without another
  one in between.
\<close>

subsection \<open>Values that cross the boundary\<close>

text \<open>
  \<open>ErrorInfo\<close> is \<open>string | null\<close>: \<open>None\<close> is \<open>null\<close>. Objects whose types are declared in
  \<open>types.ts\<close> and which the class only hands on (commit data, settings, view state, action
  and file-status tags) are carried as values of type \<open>json\<close>. JavaScript numbers that are
  handed on (refresh ids, parent indexes, limits) are integers here.
\<close>

type_synonym ErrorInfo = "string option"
type_synonym json = string
type_synonym reason = string

datatype GitConfigLocation = Local | Global | System

datatype GitPushBranchMode = Normal | ForceWithLease | Force

record GitRepoInfo =
  repoInfoData :: json
  error :: ErrorInfo

type_synonym GitRepoSet = "(string \<times> json) list"

type_synonym LoadGitGraphViewTo = "(string \<times> json option) option"

text \<open>The methods and functions of the collaborators that the class calls.\<close>

datatype (plugins only: size) callee =
    dataSource_addRemote | dataSource_addTag | dataSource_pushTag | dataSource_applyStash
  | dataSource_branchFromStash | dataSource_checkoutBranch | dataSource_checkoutCommit
  | dataSource_cherrypickCommit | dataSource_cleanUntrackedFiles
  | dataSource_getUncommittedDetails | dataSource_getCommitDetails | dataSource_getStashDetails
  | dataSource_getCommitComparison | dataSource_createBranch | dataSource_pushBranch
  | dataSource_deleteBranch | dataSource_deleteRemoteBranch | dataSource_deleteRemote
  | dataSource_deleteTag | dataSource_unsetConfigValue | dataSource_dropCommit
  | dataSource_dropStash | dataSource_editRemote | dataSource_setConfigValue
  | dataSource_fetch | dataSource_fetchIntoLocalBranch | dataSource_getRepoSettings
  | dataSource_getCommits | dataSource_getRepoInfo | dataSource_repoRoot | dataSource_merge
  | dataSource_popStash | dataSource_pruneRemote | dataSource_pullBranch
  | dataSource_pushStash | dataSource_rebase | dataSource_renameBranch
  | dataSource_resetToCommit | dataSource_revertCommit | dataSource_getTagDetails
  | utils_viewScm | utils_copyFilePathToClipboard | utils_copyToClipboard | utils_archive
  | utils_createPullRequest | utils_openExtensionSettings | utils_openFile
  | utils_showErrorMessage | utils_viewDiff | utils_viewFileAtRevision
  | extensionState_updateCodeReviewFileReviewed | extensionState_endCodeReview
  | extensionState_setGlobalViewState | extensionState_startCodeReview
  | extensionState_setLastActiveRepo
  | avatarManager_getAvatarImage | avatarManager_fetchAvatarImage
  | avatarManager_registerView | avatarManager_deregisterView
  | repoManager_checkReposExist | repoManager_searchWorkspaceForRepos
  | repoManager_setRepoState | logger_log

text \<open>Arguments and results of calls, as they are written to the log.\<close>

datatype val =
    S string
  | B bool
  | N int
  | SN "string option"
  | SL "string list"
  | SLN "string list option"
  | J json
  | E ErrorInfo
  | Loc GitConfigLocation
  | Mode GitPushBranchMode
  | Info GitRepoInfo

subsection \<open>Requests and responses\<close>

text \<open>
  \<open>RequestMessage\<close> and \<open>ResponseMessage\<close> are tagged unions over the field \<open>command\<close>; one
  constructor stands for one variant, and \<open>requestCommand\<close> and \<open>responseCommand\<close> give the
  tag. The arguments of a constructor are the fields of the variant that \<open>respondToMessage\<close>
  reads, in the order given in the comment beside it.
\<close>

datatype (plugins only: size) RequestMessage =
    RequestAddRemote string string string "string option" bool
      \<comment> \<open>repo name url pushUrl fetch\<close>
  | RequestAddTag string string string bool string "string option"
      \<comment> \<open>repo tagName commitHash lightweight message pushToRemote\<close>
  | RequestApplyStash string string bool
      \<comment> \<open>repo selector reinstateIndex\<close>
  | RequestBranchFromStash string string string
      \<comment> \<open>repo selector branchName\<close>
  | RequestCheckoutBranch string string "string option"
      \<comment> \<open>repo branchName remoteBranch\<close>
  | RequestCheckoutCommit string string
      \<comment> \<open>repo commitHash\<close>
  | RequestCherrypickCommit string string int bool bool
      \<comment> \<open>repo commitHash parentIndex recordOrigin noCommit\<close>
  | RequestCleanUntrackedFiles string bool
      \<comment> \<open>repo directories\<close>
  | RequestCodeReviewFileReviewed string string string
      \<comment> \<open>repo id filePath\<close>
  | RequestCommitDetails string string bool "json option" "string option" bool
      \<comment> \<open>repo commitHash hasParents stash avatarEmail refresh\<close>
  | RequestCompareCommits string string string string string bool
      \<comment> \<open>repo commitHash compareWithHash fromHash toHash refresh\<close>
  | RequestCopyFilePath string string
      \<comment> \<open>repo filePath\<close>
  | RequestCopyToClipboard string string
      \<comment> \<open>type data\<close>
  | RequestCreateArchive string string
      \<comment> \<open>repo ref\<close>
  | RequestCreateBranch string string string bool
      \<comment> \<open>repo branchName commitHash checkout\<close>
  | RequestCreatePullRequest string json string string string string bool
      \<comment> \<open>repo config sourceOwner sourceRepo sourceBranch sourceRemote push\<close>
  | RequestDeleteBranch string string bool "string list"
      \<comment> \<open>repo branchName forceDelete deleteOnRemotes\<close>
  | RequestDeleteRemote string string
      \<comment> \<open>repo name\<close>
  | RequestDeleteRemoteBranch string string string
      \<comment> \<open>repo branchName remote\<close>
  | RequestDeleteTag string string "string option"
      \<comment> \<open>repo tagName deleteOnRemote\<close>
  | RequestDeleteUserDetails string bool bool GitConfigLocation
      \<comment> \<open>repo name email location\<close>
  | RequestDropCommit string string
      \<comment> \<open>repo commitHash\<close>
  | RequestDropStash string string
      \<comment> \<open>repo selector\<close>
  | RequestEditRemote string string string "string option" "string option" "string option" "string option"
      \<comment> \<open>repo nameOld nameNew urlOld urlNew pushUrlOld pushUrlNew\<close>
  | RequestEditUserDetails string string string GitConfigLocation bool bool
      \<comment> \<open>repo name email location deleteLocalName deleteLocalEmail\<close>
  | RequestFetch string "string option" bool
      \<comment> \<open>repo name prune\<close>
  | RequestFetchAvatar string string "string option" "string list"
      \<comment> \<open>email repo remote commits\<close>
  | RequestFetchIntoLocalBranch string string string string
      \<comment> \<open>repo remote remoteBranch localBranch\<close>
  | RequestEndCodeReview string string
      \<comment> \<open>repo id\<close>
  | RequestGetSettings string
      \<comment> \<open>repo\<close>
  | RequestLoadCommits int bool string "string list option" int bool bool bool "string list" "string list" json
      \<comment> \<open>refreshId onlyFollowFirstParent repo branches maxCommits showTags showRemoteBranches
          includeCommitsMentionedByReflogs remotes hideRemotes stashes\<close>
  | RequestLoadRepoInfo int string bool "string list"
      \<comment> \<open>refreshId repo showRemoteBranches hideRemotes\<close>
  | RequestLoadRepos bool
      \<comment> \<open>check\<close>
  | RequestMerge string string json bool bool bool
      \<comment> \<open>repo obj actionOn createNewCommit squash noCommit\<close>
  | RequestOpenExtensionSettings
  | RequestOpenFile string string
      \<comment> \<open>repo filePath\<close>
  | RequestPopStash string string bool
      \<comment> \<open>repo selector reinstateIndex\<close>
  | RequestPruneRemote string string
      \<comment> \<open>repo name\<close>
  | RequestPullBranch string string string bool bool
      \<comment> \<open>repo branchName remote createNewCommit squash\<close>
  | RequestPushBranch string string string bool GitPushBranchMode
      \<comment> \<open>repo branchName remote setUpstream mode\<close>
  | RequestPushStash string string bool
      \<comment> \<open>repo message includeUntracked\<close>
  | RequestPushTag string string string
      \<comment> \<open>repo tagName remote\<close>
  | RequestRebase string string json bool bool
      \<comment> \<open>repo obj actionOn ignoreDate interactive\<close>
  | RequestRenameBranch string string string
      \<comment> \<open>repo oldName newName\<close>
  | RequestRescanForRepos
  | RequestResetToCommit string string json
      \<comment> \<open>repo commit resetMode\<close>
  | RequestRevertCommit string string int
      \<comment> \<open>repo commitHash parentIndex\<close>
  | RequestSetGlobalViewState json
      \<comment> \<open>state\<close>
  | RequestSetRepoState string json
      \<comment> \<open>repo state\<close>
  | RequestShowErrorMessage string
      \<comment> \<open>message\<close>
  | RequestStartCodeReview string string json "string option" string "string option"
      \<comment> \<open>repo id files lastViewedFile commitHash compareWithHash\<close>
  | RequestTagDetails string string string
      \<comment> \<open>repo tagName commitHash\<close>
  | RequestViewDiff string string string string string json
      \<comment> \<open>repo fromHash toHash oldFilePath newFilePath type\<close>
  | RequestViewFileAtRevision string string string
      \<comment> \<open>repo hash filePath\<close>
  | RequestViewScm

datatype (plugins only: size) ResponseMessage =
    ResponseAddRemote ErrorInfo
  | ResponseAddTag "ErrorInfo list"
  | ResponseApplyStash ErrorInfo
  | ResponseBranchFromStash ErrorInfo
  | ResponseCheckoutBranch ErrorInfo
  | ResponseCheckoutCommit ErrorInfo
  | ResponseCherrypickCommit "ErrorInfo list"
  | ResponseCleanUntrackedFiles ErrorInfo
  | ResponseCommitDetails json "string option" "json option" bool
      \<comment> \<open>the commit details data, avatar, codeReview, refresh\<close>
  | ResponseCompareCommits string string json "json option" bool
      \<comment> \<open>commitHash, compareWithHash, the comparison data, codeReview, refresh\<close>
  | ResponseCopyFilePath ErrorInfo
  | ResponseCopyToClipboard string ErrorInfo
      \<comment> \<open>type, error\<close>
  | ResponseCreateArchive ErrorInfo
  | ResponseCreateBranch ErrorInfo
  | ResponseCreatePullRequest bool "ErrorInfo list"
      \<comment> \<open>push, errors\<close>
  | ResponseDeleteBranch "ErrorInfo list"
  | ResponseDeleteRemote ErrorInfo
  | ResponseDeleteRemoteBranch ErrorInfo
  | ResponseDeleteTag ErrorInfo
  | ResponseDeleteUserDetails "ErrorInfo list"
  | ResponseDropCommit ErrorInfo
  | ResponseDropStash ErrorInfo
  | ResponseEditRemote ErrorInfo
  | ResponseEditUserDetails "ErrorInfo list"
  | ResponseFetch ErrorInfo
  | ResponseFetchAvatar string string
      \<comment> \<open>email, image\<close>
  | ResponseFetchIntoLocalBranch ErrorInfo
  | ResponseGetSettings json
  | ResponseLoadCommits int bool json
      \<comment> \<open>refreshId, onlyFollowFirstParent, the commit data\<close>
  | ResponseLoadRepoInfo int GitRepoInfo bool
      \<comment> \<open>refreshId, the repo info, isRepo\<close>
  | ResponseLoadRepos GitRepoSet "string option" LoadGitGraphViewTo
      \<comment> \<open>repos, lastActiveRepo, loadViewTo\<close>
  | ResponseMerge json ErrorInfo
      \<comment> \<open>actionOn, error\<close>
  | ResponseOpenExtensionSettings ErrorInfo
  | ResponseOpenFile ErrorInfo
  | ResponsePopStash ErrorInfo
  | ResponsePruneRemote ErrorInfo
  | ResponsePullBranch ErrorInfo
  | ResponsePushBranch ErrorInfo
  | ResponsePushStash ErrorInfo
  | ResponsePushTag ErrorInfo
  | ResponseRebase json bool ErrorInfo
      \<comment> \<open>actionOn, interactive, error\<close>
  | ResponseRefresh
  | ResponseRenameBranch ErrorInfo
  | ResponseResetToCommit ErrorInfo
  | ResponseRevertCommit ErrorInfo
  | ResponseSetGlobalViewState ErrorInfo
  | ResponseStartCodeReview string "string option" json
      \<comment> \<open>commitHash, compareWithHash, the code review data\<close>
  | ResponseTagDetails string string json
      \<comment> \<open>tagName, commitHash, the tag details data\<close>
  | ResponseViewDiff ErrorInfo
  | ResponseViewFileAtRevision ErrorInfo
  | ResponseViewScm ErrorInfo



subsection \<open>The rendered document\<close>

text \<open>
  \<open>getHtmlForWebview\<close> fills one of three templates. The model keeps which template was
  chosen and the values interpolated into it; the fixed markup around them is left out.
  \<open>Config\<close> is what \<open>getConfig()\<close> returns: the settings the class reads by name, and
  the remaining ones (copied one to one into the initial state) as a single value.
\<close>

datatype RefLabelAlignment =
  RefLabelAlignment_Normal | BranchesOnLeftAndTagsOnRight | BranchesAlignedToGraphAndTagsOnRight

datatype TabIconColourTheme = Colour | Grey

record Config =
  config_refLabelAlignment :: RefLabelAlignment
  config_fetchAvatars :: bool
  config_graphColours :: "string list"
  config_retainContextWhenHidden :: bool
  config_tabIconColourTheme :: TabIconColourTheme
  config_copiedSettings :: json

record GitGraphViewConfig =
  branchLabelsAlignedToGraph :: bool
  fetchAvatars :: bool
  graphColours :: "string list"
  grid :: "int \<times> int \<times> int \<times> int \<times> int"
  tagLabelsOnRight :: bool
  copiedSettings :: json

record GitGraphViewInitialState =
  config :: GitGraphViewConfig
  lastActiveRepo :: "string option"
  initialState_loadViewTo :: LoadGitGraphViewTo
  repos :: GitRepoSet
  initialState_loadRepoInfoRefreshId :: int
  initialState_loadCommitsRefreshId :: int

datatype uri = Uri string "string list"
  \<comment> \<open>scheme, and the path components joined by \<open>path.join\<close>\<close>

datatype body =
    BodyUnableToFindGit string string
      \<comment> \<open>colorVars, UNABLE_TO_FIND_GIT_MSG\<close>
  | BodyGitGraph string string json GitGraphViewInitialState uri
      \<comment> \<open>colorVars, nonce, globalState, initialState, the script's uri\<close>
  | BodyNoRepos string string
      \<comment> \<open>colorVars, nonce\<close>

record HtmlDocument =
  html_cspSource :: string
  html_nonce :: string
  html_stylesheet :: uri
  html_colorParams :: string
  html_body :: body

subsection \<open>Effects, the state of the view and the collaborators\<close>

text \<open>
  An \<open>event\<close> is one call the class makes on the outside: on a collaborator (\<open>Called\<close>
  when the class uses what the call settles with, which the event records; \<open>Invoked\<close> when
  it does not), on the file watcher, or on the panel.
\<close>

datatype (plugins only: size) event =
    Called callee "val list" "reason + val"
  | Invoked callee "val list"
  | WatcherMute
  | WatcherUnmute
  | WatcherStart string
  | WatcherStop
  | PostMessage ResponseMessage
  | WebviewHtml HtmlDocument
  | CreateWebviewPanel "nat option" bool
  | PanelIconPath "uri list"
  | PanelReveal "nat option"
  | PanelDispose
  | DisposablesDispose

text \<open>
  The fields of the class, then \<open>panelVisible\<close> (the panel's own \<open>visible\<close> property,
  which the host sets) and the log of effects.
\<close>

record GitGraphView =
  extensionPath :: string
  isGraphViewLoaded :: bool
  isPanelVisible :: bool
  currentRepo :: "string option"
  loadViewTo :: LoadGitGraphViewTo
  loadRepoInfoRefreshId :: int
  loadCommitsRefreshId :: int
  panelVisible :: bool
  effects :: "event list"

text \<open>
  The collaborators. An awaited call settles with \<open>Inl\<close> a reason when its promise rejects
  and with \<open>Inr\<close> its value when it resolves; there is one oracle for each type of value.
  The synchronous getters read the collaborator's state, which the log determines. The
  constants \<open>UNCOMMITTED\<close>, \<open>GIT_CONFIG_USER_NAME\<close>, \<open>GIT_CONFIG_USER_EMAIL\<close> and
  \<open>UNABLE_TO_FIND_GIT_MSG\<close> are imported from modules that are not among the sources.
\<close>

record Collaborators =
  awaitErrorInfo :: "callee \<Rightarrow> val list \<Rightarrow> event list \<Rightarrow> reason + ErrorInfo"
  awaitBool :: "callee \<Rightarrow> val list \<Rightarrow> event list \<Rightarrow> reason + bool"
  awaitData :: "callee \<Rightarrow> val list \<Rightarrow> event list \<Rightarrow> reason + json"
  awaitRepoInfo :: "callee \<Rightarrow> val list \<Rightarrow> event list \<Rightarrow> reason + GitRepoInfo"
  awaitString :: "callee \<Rightarrow> val list \<Rightarrow> event list \<Rightarrow> reason + string option"
  getCodeReview :: "string \<Rightarrow> string \<Rightarrow> event list \<Rightarrow> json option"
  getLastActiveRepo :: "event list \<Rightarrow> string option"
  getRepos :: "event list \<Rightarrow> GitRepoSet"
  getGlobalViewState :: "event list \<Rightarrow> json"
  isAvatarStorageAvailable :: "event list \<Rightarrow> bool"
  isGitExecutableUnknown :: "event list \<Rightarrow> bool"
  getConfig :: "event list \<Rightarrow> Config"
  getNonce :: "event list \<Rightarrow> string"
  webviewCspSource :: string
  UNCOMMITTED :: string
  GIT_CONFIG_USER_NAME :: string
  GIT_CONFIG_USER_EMAIL :: string
  UNABLE_TO_FIND_GIT_MSG :: string

subsection \<open>Sequencing\<close>

text \<open>
  A method of the class is a function from the state of the view to an outcome and the
  state it leaves. The outcome \<open>Inl r\<close> is the method's promise rejecting with \<open>r\<close>: the
  class has no \<open>try\<close>, so a rejected \<open>await\<close> ends the method at once, and \<open>thenP\<close> skips
  what follows it.
\<close>

type_synonym 'a prog = "GitGraphView \<Rightarrow> (reason + 'a) \<times> GitGraphView"

definition resolve :: "'a \<Rightarrow> 'a prog" where
  "resolve x s = (Inr x, s)"

definition thenP :: "'a prog \<Rightarrow> ('a \<Rightarrow> 'b prog) \<Rightarrow> 'b prog" where
  "thenP m f s = (case m s of (Inl r, s') \<Rightarrow> (Inl r, s') | (Inr x, s') \<Rightarrow> f x s')"

definition perform :: "event \<Rightarrow> unit prog" where
  "perform e s = (Inr (), s\<lparr>effects := effects s @ [e]\<rparr>)"

definition assign :: "(GitGraphView \<Rightarrow> GitGraphView) \<Rightarrow> unit prog" where
  "assign f s = (Inr (), f s)"

definition whenP :: "bool \<Rightarrow> unit prog \<Rightarrow> unit prog" where
  "whenP b m = (if b then m else resolve ())"

text \<open>
  \<open>call\<close> makes a call and hands back the promise, that is, what it settles with;
  \<open>settle\<close> is \<open>await\<close> on a promise; \<open>await\<close> is the two together.
\<close>

definition call ::
  "(callee \<Rightarrow> val list \<Rightarrow> event list \<Rightarrow> reason + 'a) \<Rightarrow> ('a \<Rightarrow> val) \<Rightarrow> callee \<Rightarrow> val list
    \<Rightarrow> (reason + 'a) prog" where
  "call oracle toVal c args s =
     (let r = oracle c args (effects s)
      in (Inr r, s\<lparr>effects := effects s @ [Called c args (map_sum id toVal r)]\<rparr>))"

definition settle :: "reason + 'a \<Rightarrow> 'a prog" where
  "settle r s = (r, s)"

definition await ::
  "(callee \<Rightarrow> val list \<Rightarrow> event list \<Rightarrow> reason + 'a) \<Rightarrow> ('a \<Rightarrow> val) \<Rightarrow> callee \<Rightarrow> val list
    \<Rightarrow> 'a prog" where
  "await oracle toVal c args = thenP (call oracle toVal c args) settle"

definition awaitE :: "Collaborators \<Rightarrow> callee \<Rightarrow> val list \<Rightarrow> ErrorInfo prog" where
  "awaitE env = await (awaitErrorInfo env) E"

definition awaitB :: "Collaborators \<Rightarrow> callee \<Rightarrow> val list \<Rightarrow> bool prog" where
  "awaitB env = await (awaitBool env) B"

definition awaitJ :: "Collaborators \<Rightarrow> callee \<Rightarrow> val list \<Rightarrow> json prog" where
  "awaitJ env = await (awaitData env) J"

definition awaitI :: "Collaborators \<Rightarrow> callee \<Rightarrow> val list \<Rightarrow> GitRepoInfo prog" where
  "awaitI env = await (awaitRepoInfo env) Info"

definition awaitS :: "Collaborators \<Rightarrow> callee \<Rightarrow> val list \<Rightarrow> string option prog" where
  "awaitS env = await (awaitString env) SN"

text \<open>\<open>if (e)\<close> on an \<open>ErrorInfo\<close>: \<open>null\<close> and the empty string are falsy.\<close>

definition truthy :: "ErrorInfo \<Rightarrow> bool" where
  "truthy e = (case e of None \<Rightarrow> False | Some m \<Rightarrow> m \<noteq> [])"

subsection \<open>Responding to a message\<close>

definition sendMessage :: "ResponseMessage \<Rightarrow> unit prog" where
  "sendMessage msg = perform (PostMessage msg)"

definition respondLoadRepos :: "Collaborators \<Rightarrow> GitRepoSet \<Rightarrow> LoadGitGraphViewTo \<Rightarrow> unit prog" where
  "respondLoadRepos env rs target s =
     sendMessage (ResponseLoadRepos rs (getLastActiveRepo env (effects s)) target) s"

definition respondWithAvatar :: "string \<Rightarrow> string \<Rightarrow> unit prog" where
  "respondWithAvatar email img = sendMessage (ResponseFetchAvatar email img)"

text \<open>
  The loop of the case \<open>deleteBranch\<close>: \<open>for (i = 0; i < msg.deleteOnRemotes.length; i++)\<close>
  awaits one remote deletion for each element, in order, and pushes its result.
\<close>

primrec deleteOnRemotes_loop ::
  "Collaborators \<Rightarrow> string \<Rightarrow> string \<Rightarrow> string list \<Rightarrow> ErrorInfo list \<Rightarrow> ErrorInfo list prog" where
  "deleteOnRemotes_loop env repo branchName [] errorInfos = resolve errorInfos"
| "deleteOnRemotes_loop env repo branchName (remote # remotes) errorInfos =
     thenP (awaitE env dataSource_deleteRemoteBranch [S repo, S branchName, S remote]) (\<lambda>e.
     deleteOnRemotes_loop env repo branchName remotes (errorInfos @ [e]))"

text \<open>
  The \<open>switch\<close> of \<open>respondToMessage\<close>, one equation for each \<open>case\<close>. In the case
  \<open>commitDetails\<close> both calls of \<open>Promise.all\<close> are made before either is awaited; when
  both reject, the model reports the first one's reason.
\<close>

fun respondToMessage_switch :: "Collaborators \<Rightarrow> RequestMessage \<Rightarrow> unit prog" where
  "respondToMessage_switch env (RequestAddRemote repo name url pushUrl fetch) =
     thenP (awaitE env dataSource_addRemote [S repo, S name, S url, SN pushUrl, B fetch]) (\<lambda>e.
     sendMessage (ResponseAddRemote e))"
| "respondToMessage_switch env (RequestAddTag repo tagName commitHash lightweight message pushToRemote) =
     thenP (awaitE env dataSource_addTag [S repo, S tagName, S commitHash, B lightweight, S message]) (\<lambda>e0.
     thenP (if e0 = None \<and> pushToRemote \<noteq> None
            then thenP (awaitE env dataSource_pushTag [S repo, S tagName, SN pushToRemote]) (\<lambda>e1.
                 resolve [e0, e1])
            else resolve [e0]) (\<lambda>errorInfos.
     sendMessage (ResponseAddTag errorInfos)))"
| "respondToMessage_switch env (RequestApplyStash repo selector reinstateIndex) =
     thenP (awaitE env dataSource_applyStash [S repo, S selector, B reinstateIndex]) (\<lambda>e.
     sendMessage (ResponseApplyStash e))"
| "respondToMessage_switch env (RequestBranchFromStash repo selector branchName) =
     thenP (awaitE env dataSource_branchFromStash [S repo, S selector, S branchName]) (\<lambda>e.
     sendMessage (ResponseBranchFromStash e))"
| "respondToMessage_switch env (RequestCheckoutBranch repo branchName remoteBranch) =
     thenP (awaitE env dataSource_checkoutBranch [S repo, S branchName, SN remoteBranch]) (\<lambda>e.
     sendMessage (ResponseCheckoutBranch e))"
| "respondToMessage_switch env (RequestCheckoutCommit repo commitHash) =
     thenP (awaitE env dataSource_checkoutCommit [S repo, S commitHash]) (\<lambda>e.
     sendMessage (ResponseCheckoutCommit e))"
| "respondToMessage_switch env (RequestCherrypickCommit repo commitHash parentIndex recordOrigin noCommit) =
     thenP (awaitE env dataSource_cherrypickCommit
              [S repo, S commitHash, N parentIndex, B recordOrigin, B noCommit]) (\<lambda>e0.
     thenP (if e0 = None \<and> noCommit
            then thenP (awaitE env utils_viewScm []) (\<lambda>e1. resolve [e0, e1])
            else resolve [e0]) (\<lambda>errorInfos.
     sendMessage (ResponseCherrypickCommit errorInfos)))"
| "respondToMessage_switch env (RequestCleanUntrackedFiles repo directories) =
     thenP (awaitE env dataSource_cleanUntrackedFiles [S repo, B directories]) (\<lambda>e.
     sendMessage (ResponseCleanUntrackedFiles e))"
| "respondToMessage_switch env (RequestCodeReviewFileReviewed repo ident filePath) =
     perform (Invoked extensionState_updateCodeReviewFileReviewed [S repo, S ident, S filePath])"
| "respondToMessage_switch env (RequestCommitDetails repo commitHash hasParents stash avatarEmail refresh) =
     thenP (if commitHash = UNCOMMITTED env
            then call (awaitData env) J dataSource_getUncommittedDetails [S repo]
            else (case stash of
                    None \<Rightarrow> call (awaitData env) J dataSource_getCommitDetails
                              [S repo, S commitHash, B hasParents]
                  | Some st \<Rightarrow> call (awaitData env) J dataSource_getStashDetails
                              [S repo, S commitHash, J st])) (\<lambda>p0.
     thenP (case avatarEmail of
              Some email \<Rightarrow> call (awaitString env) SN avatarManager_getAvatarImage [S email]
            | None \<Rightarrow> resolve (Inr None)) (\<lambda>p1.
     thenP (settle p0) (\<lambda>data0.
     thenP (settle p1) (\<lambda>data1.
     (\<lambda>s. sendMessage (ResponseCommitDetails data0 data1
                          (if commitHash \<noteq> UNCOMMITTED env
                           then getCodeReview env repo commitHash (effects s) else None)
                          refresh) s)))))"
| "respondToMessage_switch env (RequestCompareCommits repo commitHash compareWithHash fromHash toHash refresh) =
     thenP (awaitJ env dataSource_getCommitComparison [S repo, S fromHash, S toHash]) (\<lambda>data.
     (\<lambda>s. sendMessage (ResponseCompareCommits commitHash compareWithHash data
                          (if toHash \<noteq> UNCOMMITTED env
                           then getCodeReview env repo (fromHash @ ''-'' @ toHash) (effects s)
                           else None)
                          refresh) s))"
| "respondToMessage_switch env (RequestCopyFilePath repo filePath) =
     thenP (awaitE env utils_copyFilePathToClipboard [S repo, S filePath]) (\<lambda>e.
     sendMessage (ResponseCopyFilePath e))"
| "respondToMessage_switch env (RequestCopyToClipboard type data) =
     thenP (awaitE env utils_copyToClipboard [S data]) (\<lambda>e.
     sendMessage (ResponseCopyToClipboard type e))"
| "respondToMessage_switch env (RequestCreateArchive repo ref) =
     thenP (awaitE env utils_archive [S repo, S ref]) (\<lambda>e.
     sendMessage (ResponseCreateArchive e))"
| "respondToMessage_switch env (RequestCreateBranch repo branchName commitHash checkout) =
     thenP (awaitE env dataSource_createBranch [S repo, S branchName, S commitHash, B checkout]) (\<lambda>e.
     sendMessage (ResponseCreateBranch e))"
| "respondToMessage_switch env (RequestCreatePullRequest repo prConfig sourceOwner sourceRepo sourceBranch sourceRemote push) =
     thenP (if push
            then awaitE env dataSource_pushBranch
                   [S repo, S sourceBranch, S sourceRemote, B True, Mode GitPushBranchMode.Normal]
            else resolve None) (\<lambda>e0.
     thenP (if e0 = None
            then thenP (awaitE env utils_createPullRequest
                          [J prConfig, S sourceOwner, S sourceRepo, S sourceBranch]) (\<lambda>e1.
                 resolve [e0, e1])
            else resolve [e0]) (\<lambda>errorInfos.
     sendMessage (ResponseCreatePullRequest push errorInfos)))"
| "respondToMessage_switch env (RequestDeleteBranch repo branchName forceDelete deleteOnRemotes) =
     thenP (awaitE env dataSource_deleteBranch [S repo, S branchName, B forceDelete]) (\<lambda>e0.
     thenP (deleteOnRemotes_loop env repo branchName deleteOnRemotes [e0]) (\<lambda>errorInfos.
     sendMessage (ResponseDeleteBranch errorInfos)))"
| "respondToMessage_switch env (RequestDeleteRemote repo name) =
     thenP (awaitE env dataSource_deleteRemote [S repo, S name]) (\<lambda>e.
     sendMessage (ResponseDeleteRemote e))"
| "respondToMessage_switch env (RequestDeleteRemoteBranch repo branchName remote) =
     thenP (awaitE env dataSource_deleteRemoteBranch [S repo, S branchName, S remote]) (\<lambda>e.
     sendMessage (ResponseDeleteRemoteBranch e))"
| "respondToMessage_switch env (RequestDeleteTag repo tagName deleteOnRemote) =
     thenP (awaitE env dataSource_deleteTag [S repo, S tagName, SN deleteOnRemote]) (\<lambda>e.
     sendMessage (ResponseDeleteTag e))"
| "respondToMessage_switch env (RequestDeleteUserDetails repo name email location) =
     thenP (if name
            then thenP (awaitE env dataSource_unsetConfigValue
                          [S repo, S (GIT_CONFIG_USER_NAME env), Loc location]) (\<lambda>e.
                 resolve [e])
            else resolve []) (\<lambda>errorInfos.
     thenP (if email
            then thenP (awaitE env dataSource_unsetConfigValue
                          [S repo, S (GIT_CONFIG_USER_EMAIL env), Loc location]) (\<lambda>e.
                 resolve (errorInfos @ [e]))
            else resolve errorInfos) (\<lambda>errorInfos.
     sendMessage (ResponseDeleteUserDetails errorInfos)))"
| "respondToMessage_switch env (RequestDropCommit repo commitHash) =
     thenP (awaitE env dataSource_dropCommit [S repo, S commitHash]) (\<lambda>e.
     sendMessage (ResponseDropCommit e))"
| "respondToMessage_switch env (RequestDropStash repo selector) =
     thenP (awaitE env dataSource_dropStash [S repo, S selector]) (\<lambda>e.
     sendMessage (ResponseDropStash e))"
| "respondToMessage_switch env (RequestEditRemote repo nameOld nameNew urlOld urlNew pushUrlOld pushUrlNew) =
     thenP (awaitE env dataSource_editRemote
              [S repo, S nameOld, S nameNew, SN urlOld, SN urlNew, SN pushUrlOld, SN pushUrlNew]) (\<lambda>e.
     sendMessage (ResponseEditRemote e))"
| "respondToMessage_switch env (RequestEditUserDetails repo name email location deleteLocalName deleteLocalEmail) =
     thenP (awaitE env dataSource_setConfigValue
              [S repo, S (GIT_CONFIG_USER_NAME env), S name, Loc location]) (\<lambda>e0.
     thenP (awaitE env dataSource_setConfigValue
              [S repo, S (GIT_CONFIG_USER_EMAIL env), S email, Loc location]) (\<lambda>e1.
     thenP (if e0 = None \<and> e1 = None
            then thenP (if deleteLocalName
                        then thenP (awaitE env dataSource_unsetConfigValue
                                      [S repo, S (GIT_CONFIG_USER_NAME env), Loc Local]) (\<lambda>e.
                             resolve [e0, e1, e])
                        else resolve [e0, e1]) (\<lambda>errorInfos.
                 if deleteLocalEmail
                 then thenP (awaitE env dataSource_unsetConfigValue
                               [S repo, S (GIT_CONFIG_USER_EMAIL env), Loc Local]) (\<lambda>e.
                      resolve (errorInfos @ [e]))
                 else resolve errorInfos)
            else resolve [e0, e1]) (\<lambda>errorInfos.
     sendMessage (ResponseEditUserDetails errorInfos))))"
| "respondToMessage_switch env (RequestFetch repo name prune) =
     thenP (awaitE env dataSource_fetch [S repo, SN name, B prune]) (\<lambda>e.
     sendMessage (ResponseFetch e))"
| "respondToMessage_switch env (RequestFetchAvatar email repo remote commits) =
     perform (Invoked avatarManager_fetchAvatarImage [S email, S repo, SN remote, SL commits])"
| "respondToMessage_switch env (RequestFetchIntoLocalBranch repo remote remoteBranch localBranch) =
     thenP (awaitE env dataSource_fetchIntoLocalBranch
              [S repo, S remote, S remoteBranch, S localBranch]) (\<lambda>e.
     sendMessage (ResponseFetchIntoLocalBranch e))"
| "respondToMessage_switch env (RequestEndCodeReview repo ident) =
     perform (Invoked extensionState_endCodeReview [S repo, S ident])"
| "respondToMessage_switch env (RequestGetSettings repo) =
     thenP (awaitJ env dataSource_getRepoSettings [S repo]) (\<lambda>data.
     sendMessage (ResponseGetSettings data))"
| "respondToMessage_switch env (RequestLoadCommits refreshId onlyFollowFirstParent repo branches maxCommits showTags showRemoteBranches includeCommitsMentionedByReflogs remotes hideRemotes stashes) =
     thenP (assign (\<lambda>s. s\<lparr>loadCommitsRefreshId := refreshId\<rparr>)) (\<lambda>_.
     thenP (awaitJ env dataSource_getCommits
              [S repo, SLN branches, N maxCommits, B showTags, B showRemoteBranches,
               B includeCommitsMentionedByReflogs, B onlyFollowFirstParent, SL remotes,
               SL hideRemotes, J stashes]) (\<lambda>data.
     sendMessage (ResponseLoadCommits refreshId onlyFollowFirstParent data)))"
| "respondToMessage_switch env (RequestLoadRepoInfo refreshId repo showRemoteBranches hideRemotes) =
     thenP (assign (\<lambda>s. s\<lparr>loadRepoInfoRefreshId := refreshId\<rparr>)) (\<lambda>_.
     thenP (awaitI env dataSource_getRepoInfo [S repo, B showRemoteBranches, SL hideRemotes]) (\<lambda>repoInfo.
     thenP (if truthy (error repoInfo)
            then thenP (awaitS env dataSource_repoRoot [S repo]) (\<lambda>root.
                 let isRepo = (root \<noteq> None)
                 in resolve (if \<not> isRepo then repoInfo\<lparr>error := None\<rparr> else repoInfo, isRepo))
            else resolve (repoInfo, True)) (\<lambda>(repoInfo, isRepo).
     thenP (sendMessage (ResponseLoadRepoInfo refreshId repoInfo isRepo)) (\<lambda>_.
     (\<lambda>s. whenP (Some repo \<noteq> currentRepo s)
             (thenP (assign (\<lambda>s. s\<lparr>currentRepo := Some repo\<rparr>)) (\<lambda>_.
              thenP (perform (Invoked extensionState_setLastActiveRepo [S repo])) (\<lambda>_.
              perform (WatcherStart repo)))) s)))))"
| "respondToMessage_switch env (RequestLoadRepos check) =
     thenP (if \<not> check then resolve True
            else thenP (awaitB env repoManager_checkReposExist []) (\<lambda>changes.
                 resolve (\<not> changes))) (\<lambda>respond.
     whenP respond (\<lambda>s. respondLoadRepos env (getRepos env (effects s)) None s))"
| "respondToMessage_switch env (RequestMerge repo obj actionOn createNewCommit squash noCommit) =
     thenP (awaitE env dataSource_merge
              [S repo, S obj, J actionOn, B createNewCommit, B squash, B noCommit]) (\<lambda>e.
     sendMessage (ResponseMerge actionOn e))"
| "respondToMessage_switch env RequestOpenExtensionSettings =
     thenP (awaitE env utils_openExtensionSettings []) (\<lambda>e.
     sendMessage (ResponseOpenExtensionSettings e))"
| "respondToMessage_switch env (RequestOpenFile repo filePath) =
     thenP (awaitE env utils_openFile [S repo, S filePath]) (\<lambda>e.
     sendMessage (ResponseOpenFile e))"
| "respondToMessage_switch env (RequestPopStash repo selector reinstateIndex) =
     thenP (awaitE env dataSource_popStash [S repo, S selector, B reinstateIndex]) (\<lambda>e.
     sendMessage (ResponsePopStash e))"
| "respondToMessage_switch env (RequestPruneRemote repo name) =
     thenP (awaitE env dataSource_pruneRemote [S repo, S name]) (\<lambda>e.
     sendMessage (ResponsePruneRemote e))"
| "respondToMessage_switch env (RequestPullBranch repo branchName remote createNewCommit squash) =
     thenP (awaitE env dataSource_pullBranch
              [S repo, S branchName, S remote, B createNewCommit, B squash]) (\<lambda>e.
     sendMessage (ResponsePullBranch e))"
| "respondToMessage_switch env (RequestPushBranch repo branchName remote setUpstream mode) =
     thenP (awaitE env dataSource_pushBranch
              [S repo, S branchName, S remote, B setUpstream, Mode mode]) (\<lambda>e.
     sendMessage (ResponsePushBranch e))"
| "respondToMessage_switch env (RequestPushStash repo message includeUntracked) =
     thenP (awaitE env dataSource_pushStash [S repo, S message, B includeUntracked]) (\<lambda>e.
     sendMessage (ResponsePushStash e))"
| "respondToMessage_switch env (RequestPushTag repo tagName remote) =
     thenP (awaitE env dataSource_pushTag [S repo, S tagName, S remote]) (\<lambda>e.
     sendMessage (ResponsePushTag e))"
| "respondToMessage_switch env (RequestRebase repo obj actionOn ignoreDate interactive) =
     thenP (awaitE env dataSource_rebase
              [S repo, S obj, J actionOn, B ignoreDate, B interactive]) (\<lambda>e.
     sendMessage (ResponseRebase actionOn interactive e))"
| "respondToMessage_switch env (RequestRenameBranch repo oldName newName) =
     thenP (awaitE env dataSource_renameBranch [S repo, S oldName, S newName]) (\<lambda>e.
     sendMessage (ResponseRenameBranch e))"
| "respondToMessage_switch env RequestRescanForRepos =
     thenP (awaitB env repoManager_searchWorkspaceForRepos []) (\<lambda>found.
     whenP (\<not> found)
       (perform (Invoked utils_showErrorMessage
          [S ''No Git repositories were found in the current workspace.''])))"
| "respondToMessage_switch env (RequestResetToCommit repo commit resetMode) =
     thenP (awaitE env dataSource_resetToCommit [S repo, S commit, J resetMode]) (\<lambda>e.
     sendMessage (ResponseResetToCommit e))"
| "respondToMessage_switch env (RequestRevertCommit repo commitHash parentIndex) =
     thenP (awaitE env dataSource_revertCommit [S repo, S commitHash, N parentIndex]) (\<lambda>e.
     sendMessage (ResponseRevertCommit e))"
| "respondToMessage_switch env (RequestSetGlobalViewState state) =
     thenP (awaitE env extensionState_setGlobalViewState [J state]) (\<lambda>e.
     sendMessage (ResponseSetGlobalViewState e))"
| "respondToMessage_switch env (RequestSetRepoState repo state) =
     perform (Invoked repoManager_setRepoState [S repo, J state])"
| "respondToMessage_switch env (RequestShowErrorMessage message) =
     perform (Invoked utils_showErrorMessage [S message])"
| "respondToMessage_switch env (RequestStartCodeReview repo ident files lastViewedFile commitHash compareWithHash) =
     thenP (awaitJ env extensionState_startCodeReview
              [S repo, S ident, J files, SN lastViewedFile]) (\<lambda>data.
     sendMessage (ResponseStartCodeReview commitHash compareWithHash data))"
| "respondToMessage_switch env (RequestTagDetails repo tagName commitHash) =
     thenP (awaitJ env dataSource_getTagDetails [S repo, S tagName]) (\<lambda>data.
     sendMessage (ResponseTagDetails tagName commitHash data))"
| "respondToMessage_switch env (RequestViewDiff repo fromHash toHash oldFilePath newFilePath type) =
     thenP (awaitE env utils_viewDiff
              [S repo, S fromHash, S toHash, S oldFilePath, S newFilePath, J type]) (\<lambda>e.
     sendMessage (ResponseViewDiff e))"
| "respondToMessage_switch env (RequestViewFileAtRevision repo hash filePath) =
     thenP (awaitE env utils_viewFileAtRevision [S repo, S hash, S filePath]) (\<lambda>e.
     sendMessage (ResponseViewFileAtRevision e))"
| "respondToMessage_switch env RequestViewScm =
     thenP (awaitE env utils_viewScm []) (\<lambda>e.
     sendMessage (ResponseViewScm e))"

definition respondToMessage :: "Collaborators \<Rightarrow> RequestMessage \<Rightarrow> unit prog" where
  "respondToMessage env msg =
     thenP (perform WatcherMute) (\<lambda>_.
     thenP (respondToMessage_switch env msg) (\<lambda>_.
     perform WatcherUnmute))"

subsection \<open>Rendering\<close>

text \<open>A number printed in decimal, as \<open>'...' + i\<close> does for an index.\<close>

fun decimal :: "nat \<Rightarrow> string" where
  "decimal n =
     (if n < 10 then [''0123456789'' ! n]
      else decimal (n div 10) @ [''0123456789'' ! (n mod 10)])"

text \<open>
  The loop over \<open>initialState.config.graphColours\<close>, from index \<open>i\<close> on: it appends to
  \<open>colorVars\<close> and to \<open>colorParams\<close>.
\<close>

primrec graphColours_loop :: "nat \<Rightarrow> string list \<Rightarrow> string \<times> string \<Rightarrow> string \<times> string" where
  "graphColours_loop i [] acc = acc"
| "graphColours_loop i (colour # colours) acc =
     graphColours_loop (Suc i) colours
       (fst acc @ ''--git-graph-color'' @ decimal i @ '':'' @ colour @ ''; '',
        snd acc @ ''[data-color='' @ [CHR 0x22] @ decimal i @ [CHR 0x22]
          @ '']{--git-graph-color:var(--git-graph-color'' @ decimal i @ '');} '')"

definition getUri :: "GitGraphView \<Rightarrow> string list \<Rightarrow> uri" where
  "getUri s pathComps = Uri ''file'' (extensionPath s # pathComps)"

definition getMediaUri :: "GitGraphView \<Rightarrow> string \<Rightarrow> uri" where
  "getMediaUri s file =
     (case getUri s [''media'', file] of Uri _ comps \<Rightarrow> Uri ''vscode-resource'' comps)"

definition getHtmlForWebview :: "Collaborators \<Rightarrow> HtmlDocument prog" where
  "getHtmlForWebview env s =
     (let h = effects s;
          cfg = getConfig env h;
          nonce = getNonce env h;
          refLabelAlignment = config_refLabelAlignment cfg;
          initialState = \<lparr>
            config = \<lparr>
              branchLabelsAlignedToGraph =
                (refLabelAlignment = BranchesAlignedToGraphAndTagsOnRight),
              fetchAvatars = (config_fetchAvatars cfg \<and> isAvatarStorageAvailable env h),
              graphColours = config_graphColours cfg,
              grid = (16, 24, 16, 12, 250),
              tagLabelsOnRight = (refLabelAlignment \<noteq> RefLabelAlignment_Normal),
              copiedSettings = config_copiedSettings cfg \<rparr>,
            lastActiveRepo = getLastActiveRepo env h,
            initialState_loadViewTo = loadViewTo s,
            repos = getRepos env h,
            initialState_loadRepoInfoRefreshId = loadRepoInfoRefreshId s,
            initialState_loadCommitsRefreshId = loadCommitsRefreshId s \<rparr>;
          globalState = getGlobalViewState env h;
          numRepos = length (remdups (map fst (repos initialState)));
          colors = graphColours_loop 0 (graphColours (config initialState)) ([], []);
          colorVars = fst colors;
          colorParams = snd colors;
          body =
            (if isGitExecutableUnknown env h
             then BodyUnableToFindGit colorVars (UNABLE_TO_FIND_GIT_MSG env)
             else if numRepos > 0
             then BodyGitGraph colorVars nonce globalState initialState
                    (getMediaUri s ''out.min.js'')
             else BodyNoRepos colorVars nonce)
      in (Inr \<lparr> html_cspSource = webviewCspSource env,
                 html_nonce = nonce,
                 html_stylesheet = getMediaUri s ''out.min.css'',
                 html_colorParams = colorParams,
                 html_body = body \<rparr>,
          s\<lparr>isGraphViewLoaded := (numRepos > 0), loadViewTo := None\<rparr>))"

definition update :: "Collaborators \<Rightarrow> unit prog" where
  "update env = thenP (getHtmlForWebview env) (\<lambda>html. perform (WebviewHtml html))"

subsection \<open>Callbacks\<close>

text \<open>
  The callback registered with \<open>panel.onDidChangeViewState\<close>. The host has set
  \<open>panel.visible\<close>, the field \<open>panelVisible\<close>, before it calls.
\<close>

definition onDidChangeViewState :: "Collaborators \<Rightarrow> unit prog" where
  "onDidChangeViewState env s =
     whenP (panelVisible s \<noteq> isPanelVisible s)
       (thenP (if panelVisible s
               then update env
               else thenP (assign (\<lambda>s. s\<lparr>currentRepo := None\<rparr>)) (\<lambda>_.
                    perform WatcherStop)) (\<lambda>_.
        assign (\<lambda>s. s\<lparr>isPanelVisible := panelVisible s\<rparr>))) s"

text \<open>The callback given to the \<open>RepoFileWatcher\<close>.\<close>

definition onRepoFileChange :: "unit prog" where
  "onRepoFileChange s = whenP (panelVisible s) (sendMessage ResponseRefresh) s"

text \<open>The callback registered with \<open>repoManager.onDidChangeRepos\<close>, and its event.\<close>

record ReposChangeEvent =
  event_repos :: GitRepoSet
  event_numRepos :: int
  event_loadRepo :: "string option"

definition onDidChangeRepos :: "Collaborators \<Rightarrow> ReposChangeEvent \<Rightarrow> unit prog" where
  "onDidChangeRepos env ev s =
     (if \<not> panelVisible s then resolve () s
      else
        let target = (case event_loadRepo ev of Some r \<Rightarrow> Some (r, None) | None \<Rightarrow> None)
        in if (event_numRepos ev = 0 \<and> isGraphViewLoaded s)
              \<or> (event_numRepos ev > 0 \<and> \<not> isGraphViewLoaded s)
           then thenP (assign (\<lambda>s. s\<lparr>loadViewTo := target\<rparr>)) (\<lambda>_. update env) s
           else respondLoadRepos env (event_repos ev) target s)"

subsection \<open>Creation and disposal\<close>

text \<open>
  The constructor: the field initialisers, the panel, the first render. \<open>visible\<close> is the
  new panel's \<open>visible\<close> property and \<open>h\<close> the log so far.
\<close>

definition construct ::
  "Collaborators \<Rightarrow> string \<Rightarrow> LoadGitGraphViewTo \<Rightarrow> nat option \<Rightarrow> bool \<Rightarrow> event list
    \<Rightarrow> (reason + unit) \<times> GitGraphView" where
  "construct env path target column visible h =
     (thenP (perform (Invoked avatarManager_registerView [])) (\<lambda>_.
      thenP (\<lambda>s. perform (CreateWebviewPanel column
                    (config_retainContextWhenHidden (getConfig env (effects s)))) s) (\<lambda>_.
      thenP (\<lambda>s. perform (PanelIconPath
                    (if config_tabIconColourTheme (getConfig env (effects s)) = Colour
                     then [getUri s [''resources'', ''webview-icon.svg'']]
                     else [getUri s [''resources'', ''webview-icon-light.svg''],
                           getUri s [''resources'', ''webview-icon-dark.svg'']])) s) (\<lambda>_.
      thenP (update env) (\<lambda>_.
      perform (Invoked logger_log
        [S (''Created Git Graph View''
            @ (case target of
                 Some (repo, _) \<Rightarrow> '' (active repo: '' @ repo @ '')''
               | None \<Rightarrow> []))]))))))
     \<lparr> extensionPath = path, isGraphViewLoaded = False, isPanelVisible = True,
       currentRepo = None, loadViewTo = target, loadRepoInfoRefreshId = 0,
       loadCommitsRefreshId = 0, panelVisible = visible, effects = h \<rparr>"

text \<open>
  \<open>createOrShow\<close>: \<open>currentPanel\<close> is the static field, \<open>h\<close> the log so far when no view
  exists yet. It gives the outcome and the view that is \<open>currentPanel\<close> afterwards.
\<close>

definition createOrShow ::
  "Collaborators \<Rightarrow> string \<Rightarrow> LoadGitGraphViewTo \<Rightarrow> nat option \<Rightarrow> bool \<Rightarrow> event list
    \<Rightarrow> GitGraphView option \<Rightarrow> (reason + unit) \<times> GitGraphView" where
  "createOrShow env path target column visible h currentPanel =
     (case currentPanel of
        Some view \<Rightarrow>
          thenP (if isPanelVisible view
                 then whenP (target \<noteq> None)
                        (\<lambda>s. respondLoadRepos env (getRepos env (effects s)) target s)
                 else assign (\<lambda>s. s\<lparr>loadViewTo := target\<rparr>)) (\<lambda>_.
          perform (PanelReveal column)) view
      | None \<Rightarrow> construct env path target column visible h)"

text \<open>
  \<open>dispose\<close>, on the view that is \<open>currentPanel\<close>; the static field is \<open>undefined\<close>
  afterwards.
\<close>

definition dispose :: "unit prog" where
  "dispose =
     thenP (perform PanelDispose) (\<lambda>_.
     thenP (perform (Invoked avatarManager_deregisterView [])) (\<lambda>_.
     thenP (perform WatcherStop) (\<lambda>_.
     thenP (perform DisposablesDispose) (\<lambda>_.
     perform (Invoked logger_log [S ''Disposed Git Graph View''])))))"

section \<open>Observations\<close>

text \<open>
  What one invocation added to the log, and what can be read off a log: the responses
  posted to the webview, the calls whose result the class used (callee and arguments, and
  what each settled with), and the reasons of those that rejected.
\<close>

definition emitted :: "GitGraphView \<Rightarrow> GitGraphView \<Rightarrow> event list" where
  "emitted s s' = drop (length (effects s)) (effects s')"

fun posted :: "event \<Rightarrow> ResponseMessage list" where
  "posted (PostMessage m) = [m]"
| "posted _ = []"

definition sent :: "event list \<Rightarrow> ResponseMessage list" where
  "sent evs = concat (map posted evs)"

fun called :: "event \<Rightarrow> (callee \<times> val list \<times> (reason + val)) list" where
  "called (Called c a r) = [(c, a, r)]"
| "called _ = []"

definition calls :: "event list \<Rightarrow> (callee \<times> val list) list" where
  "calls evs = map (\<lambda>(c, a, r). (c, a)) (concat (map called evs))"

definition outcomes :: "event list \<Rightarrow> (reason + val) list" where
  "outcomes evs = map (\<lambda>(c, a, r). r) (concat (map called evs))"

fun rejection :: "event \<Rightarrow> reason list" where
  "rejection (Called c a (Inl r)) = [r]"
| "rejection _ = []"

definition rejections :: "event list \<Rightarrow> reason list" where
  "rejections evs = concat (map rejection evs)"

text \<open>The \<open>ErrorInfo\<close> values that the calls on a log resolved with, in order.\<close>

fun errorInfo :: "event \<Rightarrow> ErrorInfo list" where
  "errorInfo (Called c a (Inr (E e))) = [e]"
| "errorInfo _ = []"

definition errorInfos :: "event list \<Rightarrow> ErrorInfo list" where
  "errorInfos evs = concat (map errorInfo evs)"

text \<open>The three fields of the state of the session.\<close>

definition sessionState :: "GitGraphView \<Rightarrow> string option \<times> bool \<times> bool" where
  "sessionState s = (currentRepo s, isGraphViewLoaded s, isPanelVisible s)"


subsection \<open>Concrete inputs\<close>

text \<open>
  A view as the constructor leaves it on a workspace with repositories, and collaborators
  whose \<open>ErrorInfo\<close> calls are answered by \<open>f\<close>; the examples below override single fields.
\<close>

definition view0 :: GitGraphView where
  "view0 = \<lparr> extensionPath = ''/ext'', isGraphViewLoaded = True, isPanelVisible = True,
     currentRepo = None, loadViewTo = None, loadRepoInfoRefreshId = 0,
     loadCommitsRefreshId = 0, panelVisible = True, effects = [] \<rparr>"

definition stub :: "(callee \<Rightarrow> val list \<Rightarrow> reason + ErrorInfo) \<Rightarrow> Collaborators" where
  "stub f = \<lparr>
     awaitErrorInfo = (\<lambda>c a h. f c a),
     awaitBool = (\<lambda>c a h. Inr True),
     awaitData = (\<lambda>c a h. Inr ''{}''),
     awaitRepoInfo = (\<lambda>c a h. Inr \<lparr> repoInfoData = ''{}'', error = None \<rparr>),
     awaitString = (\<lambda>c a h. Inr None),
     getCodeReview = (\<lambda>repo ident h. None),
     getLastActiveRepo = (\<lambda>h. None),
     getRepos = (\<lambda>h. [(''/repo'', ''{}'')]),
     getGlobalViewState = (\<lambda>h. ''{}''),
     isAvatarStorageAvailable = (\<lambda>h. True),
     isGitExecutableUnknown = (\<lambda>h. False),
     getConfig = (\<lambda>h. \<lparr> config_refLabelAlignment = RefLabelAlignment_Normal,
                          config_fetchAvatars = False,
                          config_graphColours = [''#0085d9'', ''#d9008f''],
                          config_retainContextWhenHidden = True,
                          config_tabIconColourTheme = Colour,
                          config_copiedSettings = ''{}'' \<rparr>),
     getNonce = (\<lambda>h. ''nonce''),
     webviewCspSource = ''vscode-webview:'',
     UNCOMMITTED = ''*'',
     GIT_CONFIG_USER_NAME = ''user.name'',
     GIT_CONFIG_USER_EMAIL = ''user.email'',
     UNABLE_TO_FIND_GIT_MSG = ''Unable to find a Git executable.'' \<rparr>"

text \<open>
  What the \<open>case\<close> of \<open>loadRepoInfo\<close> does after its response, on the view \<open>s\<close> it
  started from.
\<close>

definition loadRepoInfo_tail :: "string \<Rightarrow> GitGraphView \<Rightarrow> event list" where
  "loadRepoInfo_tail repo s =
     (if Some repo \<noteq> currentRepo s
      then [Invoked extensionState_setLastActiveRepo [S repo], WatcherStart repo] else [])
     @ [WatcherUnmute]"

text \<open>
  Collaborators for a repository that no longer exists, and for one that exists and
  whose query fails.
\<close>

definition goneRepo :: Collaborators where
  "goneRepo = (stub (\<lambda>c a. Inr None))\<lparr>
     awaitRepoInfo := (\<lambda>c a h. Inr \<lparr> repoInfoData = ''{}'',
                                     error = Some ''fatal: not a git repository'' \<rparr>),
     awaitString := (\<lambda>c a h. Inr None) \<rparr>"


text \<open>
  A view whose panel was hidden and is shown again, and collaborators whose Git
  executable is unknown.
\<close>

definition hidden0 :: GitGraphView where
  "hidden0 = view0\<lparr>isPanelVisible := False, currentRepo := None\<rparr>"

definition gitUnknown :: Collaborators where
  "gitUnknown = (stub (\<lambda>c a. Inr None))\<lparr>isGitExecutableUnknown := (\<lambda>h. True)\<rparr>"

section \<open>Properties\<close>

subsection \<open>Auxiliary facts\<close>

lemmas prog_defs = resolve_def thenP_def perform_def assign_def whenP_def call_def settle_def
  await_def awaitE_def awaitB_def awaitJ_def awaitI_def awaitS_def sendMessage_def
  respondLoadRepos_def

lemmas run_defs = respondToMessage_def prog_defs stub_def view0_def emitted_def Let_def

lemma sent_simps [simp]:
  "sent [] = []"
  "sent (e # es) = posted e @ sent es"
  "sent (xs @ ys) = sent xs @ sent ys"
  by (simp_all add: sent_def)

lemma calls_simps [simp]:
  "calls [] = []"
  "calls (e # es) = map (\<lambda>(c, a, r). (c, a)) (called e) @ calls es"
  "calls (xs @ ys) = calls xs @ calls ys"
  by (simp_all add: calls_def)

lemma outcomes_simps [simp]:
  "outcomes [] = []"
  "outcomes (e # es) = map (\<lambda>(c, a, r). r) (called e) @ outcomes es"
  "outcomes (xs @ ys) = outcomes xs @ outcomes ys"
  by (simp_all add: outcomes_def)

lemma rejections_simps [simp]:
  "rejections [] = []"
  "rejections (e # es) = rejection e @ rejections es"
  "rejections (xs @ ys) = rejections xs @ rejections ys"
  by (simp_all add: rejections_def)

lemma errorInfos_simps [simp]:
  "errorInfos [] = []"
  "errorInfos (e # es) = errorInfo e @ errorInfos es"
  "errorInfos (xs @ ys) = errorInfos xs @ errorInfos ys"
  by (simp_all add: errorInfos_def)

lemma emitted_append: "effects s' = effects s @ evs \<Longrightarrow> emitted s s' = evs"
  by (simp add: emitted_def)

text \<open>
  \<open>respondToMessage\<close> is the \<open>switch\<close> between \<open>mute()\<close> and \<open>unmute()\<close>; the second is
  reached only when the \<open>switch\<close> did not reject.
\<close>

lemma respondToMessage_unfold:
  "respondToMessage env msg s =
     (case respondToMessage_switch env msg (s\<lparr>effects := effects s @ [WatcherMute]\<rparr>) of
        (Inl r, s1) \<Rightarrow> (Inl r, s1)
      | (Inr u, s1) \<Rightarrow> (Inr (), s1\<lparr>effects := effects s1 @ [WatcherUnmute]\<rparr>))"
  by (simp add: respondToMessage_def thenP_def perform_def split: prod.splits sum.splits)

lemma respondToMessage_cases:
  assumes "respondToMessage env msg s = (out, s')"
  obtains (rejected) r where "out = Inl r"
      "respondToMessage_switch env msg (s\<lparr>effects := effects s @ [WatcherMute]\<rparr>) = (Inl r, s')"
  | (resolved) s1 where "out = Inr ()"
      "respondToMessage_switch env msg (s\<lparr>effects := effects s @ [WatcherMute]\<rparr>) = (Inr (), s1)"
      "s' = s1\<lparr>effects := effects s1 @ [WatcherUnmute]\<rparr>"
  using assms unfolding respondToMessage_unfold
  by (auto split: prod.splits sum.splits)

text \<open>The loop of \<open>deleteBranch\<close> only awaits: it posts nothing and leaves the watcher alone.\<close>

lemma loop_effects:
  "deleteOnRemotes_loop env repo branchName remotes acc s = (out, s') \<Longrightarrow>
   \<exists>evs. effects s' = effects s @ evs \<and> WatcherMute \<notin> set evs \<and> WatcherUnmute \<notin> set evs
     \<and> sent evs = []
     \<and> ((\<exists>r. out = Inl r) \<longleftrightarrow> rejections evs \<noteq> [])"
proof (induction remotes arbitrary: acc s)
  case Nil
  then show ?case by (auto simp: prog_defs)
next
  case (Cons remote remotes)
  let ?args = "[S repo, S branchName, S remote]"
  show ?case
  proof (cases "awaitErrorInfo env dataSource_deleteRemoteBranch ?args (effects s)")
    case (Inl r)
    with Cons.prems show ?thesis
      by (auto simp: prog_defs Let_def)
  next
    case (Inr e)
    with Cons.prems obtain s1 where
      s1: "s1 = s\<lparr>effects := effects s
                  @ [Called dataSource_deleteRemoteBranch ?args (Inr (E e))]\<rparr>"
      and run: "deleteOnRemotes_loop env repo branchName remotes (acc @ [e]) s1 = (out, s')"
      by (auto simp: prog_defs Let_def)
    from Cons.IH[OF run] obtain evs where
      "effects s' = effects s1 @ evs" "WatcherMute \<notin> set evs" "WatcherUnmute \<notin> set evs"
      "sent evs = []" "(\<exists>r. out = Inl r) \<longleftrightarrow> rejections evs \<noteq> []"
      by blast
    with s1 show ?thesis
      by (intro exI[of _ "Called dataSource_deleteRemoteBranch ?args (Inr (E e)) # evs"]) simp
  qed
qed

text \<open>
  No \<open>case\<close> touches the muting of the watcher, and the \<open>switch\<close> rejects exactly when one
  of the calls it awaited rejected.
\<close>

lemma switch_effects:
  "respondToMessage_switch env msg s = (out, s') \<Longrightarrow>
   \<exists>evs. effects s' = effects s @ evs \<and> WatcherMute \<notin> set evs \<and> WatcherUnmute \<notin> set evs
     \<and> ((\<exists>r. out = Inl r) \<longleftrightarrow> rejections evs \<noteq> [])"
proof (cases msg)
  case (RequestDeleteBranch repo branchName forceDelete deleteOnRemotes)
  assume run: "respondToMessage_switch env msg s = (out, s')"
  let ?args = "[S repo, S branchName, B forceDelete]"
  show ?thesis
  proof (cases "awaitErrorInfo env dataSource_deleteBranch ?args (effects s)")
    case (Inl r)
    with run RequestDeleteBranch show ?thesis
      by (auto simp: prog_defs Let_def)
  next
    case (Inr e0)
    define s1 where
      "s1 = s\<lparr>effects := effects s @ [Called dataSource_deleteBranch ?args (Inr (E e0))]\<rparr>"
    obtain out1 s2 where
      loop: "deleteOnRemotes_loop env repo branchName deleteOnRemotes [e0] s1 = (out1, s2)"
      by (cases "deleteOnRemotes_loop env repo branchName deleteOnRemotes [e0] s1")
    from loop_effects[OF loop] obtain evs where evs:
      "effects s2 = effects s1 @ evs" "WatcherMute \<notin> set evs" "WatcherUnmute \<notin> set evs"
      "sent evs = []" "(\<exists>r. out1 = Inl r) \<longleftrightarrow> rejections evs \<noteq> []"
      by blast
    from run RequestDeleteBranch Inr loop s1_def evs show ?thesis
      by (cases out1) (auto simp: prog_defs Let_def)
  qed
qed (auto simp: prog_defs Let_def split: sum.splits if_splits option.splits prod.splits)


subsection \<open>Responses\<close>




subsection \<open>Muting the file watcher\<close>

text \<open>
  Claim C2 says that \<open>unmute()\<close> follows \<open>mute()\<close> on every exit path, also when an awaited
  operation fails. \<open>respondToMessage\<close> has no \<open>try\<close>: when the promise of
  \<open>dataSource.addRemote\<close> rejects, the dispatch ends there, and the watcher has been muted
  and is not unmuted.
\<close>

theorem respondToMessage_mute_unmute_counterexample:
  "respondToMessage (stub (\<lambda>c a. Inl ''spawn git ENOENT''))
     (RequestAddRemote ''/repo'' ''origin'' ''https://example.org/r.git'' None True) view0
   = (Inl ''spawn git ENOENT'',
      view0\<lparr>effects :=
        [WatcherMute,
         Called dataSource_addRemote
           [S ''/repo'', S ''origin'', S ''https://example.org/r.git'', SN None, B True]
           (Inl ''spawn git ENOENT'')]\<rparr>)"
  by (simp add: run_defs)

text \<open>
  Claim C2, amended. Every dispatch calls \<open>mute()\<close> first, and the handler never mutes.
  When no awaited call rejects, whatever \<open>ErrorInfo\<close> the calls report, \<open>unmute()\<close> is the
  last thing the dispatch does and it is called once. When an awaited call rejects, the
  dispatch rejects and \<open>unmute()\<close> is not called.
\<close>

theorem respondToMessage_mute_unmute:
  assumes "respondToMessage env msg s = (out, s')"
  shows "\<exists>evs. emitted s s' = WatcherMute # evs \<and> WatcherMute \<notin> set evs \<and>
           (case out of
              Inr u \<Rightarrow> rejections evs = []
                \<and> (\<exists>hs. evs = hs @ [WatcherUnmute] \<and> WatcherUnmute \<notin> set hs)
            | Inl r \<Rightarrow> rejections evs \<noteq> [] \<and> WatcherUnmute \<notin> set evs)"
  using assms
proof (cases rule: respondToMessage_cases)
  case (rejected r)
  from switch_effects[OF rejected(2)] obtain evs where
    "effects s' = effects s @ WatcherMute # evs" "WatcherMute \<notin> set evs"
    "WatcherUnmute \<notin> set evs" "rejections evs \<noteq> []"
    by auto
  with rejected(1) show ?thesis
    by (auto simp: emitted_append)
next
  case (resolved s1)
  from switch_effects[OF resolved(2)] obtain evs where
    "effects s1 = effects s @ WatcherMute # evs" "WatcherMute \<notin> set evs"
    "WatcherUnmute \<notin> set evs" "rejections evs = []"
    by auto
  with resolved(1,3) show ?thesis
    by (auto simp: emitted_append)
qed

text \<open>
  A failure reported as data: \<open>dataSource.addRemote\<close> resolves with an error message, the
  response carries it, and \<open>unmute()\<close> is called last.
\<close>

theorem respondToMessage_mute_unmute_witness:
  "respondToMessage (stub (\<lambda>c a. Inr (Some ''error: remote origin already exists.'')))
     (RequestAddRemote ''/repo'' ''origin'' ''https://example.org/r.git'' None True) view0
   = (Inr (),
      view0\<lparr>effects :=
        [WatcherMute,
         Called dataSource_addRemote
           [S ''/repo'', S ''origin'', S ''https://example.org/r.git'', SN None, B True]
           (Inr (E (Some ''error: remote origin already exists.''))),
         PostMessage (ResponseAddRemote (Some ''error: remote origin already exists.'')),
         WatcherUnmute]\<rparr>)
   \<and> (\<exists>evs. emitted view0
               (snd (respondToMessage
                  (stub (\<lambda>c a. Inr (Some ''error: remote origin already exists.'')))
                  (RequestAddRemote ''/repo'' ''origin'' ''https://example.org/r.git'' None True)
                  view0))
             = WatcherMute # evs \<and> WatcherMute \<notin> set evs \<and> rejections evs = []
             \<and> (\<exists>hs. evs = hs @ [WatcherUnmute] \<and> WatcherUnmute \<notin> set hs))"
proof -
  let ?env = "stub (\<lambda>c a. Inr (Some ''error: remote origin already exists.''))"
  let ?msg = "RequestAddRemote ''/repo'' ''origin'' ''https://example.org/r.git'' None True"
  have run: "respondToMessage ?env ?msg view0 = (Inr (), snd (respondToMessage ?env ?msg view0))"
    by (simp add: run_defs)
  have val: "respondToMessage ?env ?msg view0
   = (Inr (),
      view0\<lparr>effects :=
        [WatcherMute,
         Called dataSource_addRemote
           [S ''/repo'', S ''origin'', S ''https://example.org/r.git'', SN None, B True]
           (Inr (E (Some ''error: remote origin already exists.''))),
         PostMessage (ResponseAddRemote (Some ''error: remote origin already exists.'')),
         WatcherUnmute]\<rparr>)"
    by (simp add: run_defs)
  from respondToMessage_mute_unmute[OF run] val show ?thesis
    by simp
qed

subsection \<open>Compound operations\<close>

text \<open>
  The commands with more than one sub-operation, each on a dispatch that runs to its end.
  \<open>errorInfos\<close> of the log is the list of results of the sub-operations attempted, in the
  order of the attempts.
\<close>

lemmas obs_defs = respondToMessage_def prog_defs emitted_def Let_def

lemma addTag_run:
  assumes "respondToMessage env (RequestAddTag repo tagName commitHash lightweight message pushToRemote) s = (Inr (), s')"
  shows "sent (emitted s s') = [ResponseAddTag (errorInfos (emitted s s'))]
           \<and> outcomes (emitted s s') = map (Inr \<circ> E) (errorInfos (emitted s s'))
           \<and> calls (emitted s s') =
                (dataSource_addTag, [S repo, S tagName, S commitHash, B lightweight, S message])
                # (if errorInfos (emitted s s') ! 0 = None \<and> pushToRemote \<noteq> None
                   then [(dataSource_pushTag, [S repo, S tagName, SN pushToRemote])] else [])
           \<and> (\<forall>k < length (errorInfos (emitted s s')).
                 errorInfos (emitted s s') ! k \<noteq> None
                 \<longrightarrow> length (errorInfos (emitted s s')) = Suc k)"
  using assms
  by (auto simp: obs_defs less_Suc_eq split: sum.splits if_splits)

lemma cherrypickCommit_run:
  assumes "respondToMessage env (RequestCherrypickCommit repo commitHash parentIndex recordOrigin noCommit) s = (Inr (), s')"
  shows "sent (emitted s s') = [ResponseCherrypickCommit (errorInfos (emitted s s'))]
           \<and> outcomes (emitted s s') = map (Inr \<circ> E) (errorInfos (emitted s s'))
           \<and> calls (emitted s s') =
                (dataSource_cherrypickCommit,
                   [S repo, S commitHash, N parentIndex, B recordOrigin, B noCommit])
                # (if errorInfos (emitted s s') ! 0 = None \<and> noCommit
                   then [(utils_viewScm, [])] else [])
           \<and> (\<forall>k < length (errorInfos (emitted s s')).
                 errorInfos (emitted s s') ! k \<noteq> None
                 \<longrightarrow> length (errorInfos (emitted s s')) = Suc k)"
  using assms
  by (auto simp: obs_defs less_Suc_eq split: sum.splits if_splits)

lemma createPullRequest_run:
  assumes "respondToMessage env (RequestCreatePullRequest repo prConfig sourceOwner sourceRepo sourceBranch sourceRemote push) s = (Inr (), s')"
  shows "sent (emitted s s') =
             [ResponseCreatePullRequest push
                ((if push then [] else [None]) @ errorInfos (emitted s s'))]
           \<and> outcomes (emitted s s') = map (Inr \<circ> E) (errorInfos (emitted s s'))
           \<and> calls (emitted s s') =
                (if push
                 then [(dataSource_pushBranch,
                        [S repo, S sourceBranch, S sourceRemote, B True, Mode GitPushBranchMode.Normal])]
                 else [])
                @ (if ((if push then [] else [None]) @ errorInfos (emitted s s')) ! 0 = None
                   then [(utils_createPullRequest,
                          [J prConfig, S sourceOwner, S sourceRepo, S sourceBranch])]
                   else [])
           \<and> (\<forall>k < length ((if push then [] else [None]) @ errorInfos (emitted s s')).
                 ((if push then [] else [None]) @ errorInfos (emitted s s')) ! k \<noteq> None
                 \<longrightarrow> length ((if push then [] else [None]) @ errorInfos (emitted s s')) = Suc k)"
  using assms
  by (auto simp: obs_defs less_Suc_eq split: sum.splits if_splits)

lemma editUserDetails_run:
  assumes "respondToMessage env (RequestEditUserDetails repo name email location deleteLocalName deleteLocalEmail) s = (Inr (), s')"
  shows "sent (emitted s s') = [ResponseEditUserDetails (errorInfos (emitted s s'))]
           \<and> outcomes (emitted s s') = map (Inr \<circ> E) (errorInfos (emitted s s'))
           \<and> calls (emitted s s') =
                [(dataSource_setConfigValue,
                    [S repo, S (GIT_CONFIG_USER_NAME env), S name, Loc location]),
                 (dataSource_setConfigValue,
                    [S repo, S (GIT_CONFIG_USER_EMAIL env), S email, Loc location])]
                @ (if errorInfos (emitted s s') ! 0 = None \<and> errorInfos (emitted s s') ! 1 = None
                   then (if deleteLocalName
                         then [(dataSource_unsetConfigValue,
                                [S repo, S (GIT_CONFIG_USER_NAME env), Loc Local])]
                         else [])
                      @ (if deleteLocalEmail
                         then [(dataSource_unsetConfigValue,
                                [S repo, S (GIT_CONFIG_USER_EMAIL env), Loc Local])]
                         else [])
                   else [])"
  using assms
  by (cases deleteLocalName; cases deleteLocalEmail)
     (auto simp: obs_defs split: sum.splits if_splits)



text \<open>
  Claim C3 says that in each of the four commands, \<open>editUserDetails\<close> among them, a
  failure of sub-operation \<open>k\<close> leaves the later ones unattempted and the \<open>errors\<close> with
  \<open>k\<close> entries. In \<open>editUserDetails\<close> the first two sub-operations are the elements of one
  array literal: when setting the name fails, setting the email is attempted all the same,
  and the list has two entries.
\<close>

theorem short_circuit_counterexample:
  "respondToMessage
     (stub (\<lambda>c a. if a = [S ''/repo'', S ''user.name'', S ''Ada'', Loc Global]
                   then Inr (Some ''error: could not lock config file'') else Inr None))
     (RequestEditUserDetails ''/repo'' ''Ada'' ''ada@example.org'' Global False False) view0
   = (Inr (),
      view0\<lparr>effects :=
        [WatcherMute,
         Called dataSource_setConfigValue [S ''/repo'', S ''user.name'', S ''Ada'', Loc Global]
           (Inr (E (Some ''error: could not lock config file''))),
         Called dataSource_setConfigValue
           [S ''/repo'', S ''user.email'', S ''ada@example.org'', Loc Global]
           (Inr (E None)),
         PostMessage (ResponseEditUserDetails [Some ''error: could not lock config file'', None]),
         WatcherUnmute]\<rparr>)
   \<and> length [Some ''error: could not lock config file'', None :: ErrorInfo] \<noteq> 1"
  by (simp add: run_defs)

text \<open>
  Claim C3, amended. On a dispatch that runs to its end:
  \<^item> for \<open>addTag\<close>, \<open>cherrypickCommit\<close> and \<open>createPullRequest\<close> the \<open>errors\<close> of the
    response are the results of the sub-operations attempted, in order (for
    \<open>createPullRequest\<close> after a \<open>null\<close> in the place of a push that was not asked for);
    the second sub-operation is attempted only when the first entry is \<open>null\<close>; and an
    entry that is not \<open>null\<close> is the last one, so that when sub-operation \<open>k\<close> fails the
    list has exactly \<open>k\<close> entries and nothing is attempted after it;
  \<^item> for \<open>editUserDetails\<close> setting the name and setting the email are both attempted and
    reported, whatever setting the name returned; the local values are unset only when
    both returned \<open>null\<close>, and then each unset that was asked for is attempted, whatever
    the other returned.
\<close>

theorem short_circuit:
  fixes name email :: string
  assumes "respondToMessage env msg s = (Inr (), s')"
  defines "evs \<equiv> emitted s s'"
    and "es \<equiv> errorInfos (emitted s s')"
  shows
    "(msg = RequestAddTag repo tagName commitHash lightweight message pushToRemote \<longrightarrow>
        sent evs = [ResponseAddTag es]
        \<and> outcomes evs = map (Inr \<circ> E) es
        \<and> calls evs =
             (dataSource_addTag, [S repo, S tagName, S commitHash, B lightweight, S message])
             # (if es ! 0 = None \<and> pushToRemote \<noteq> None
                then [(dataSource_pushTag, [S repo, S tagName, SN pushToRemote])] else [])
        \<and> (\<forall>k < length es. es ! k \<noteq> None \<longrightarrow> length es = Suc k))
   \<and> (msg = RequestCherrypickCommit repo commitHash parentIndex recordOrigin noCommit \<longrightarrow>
        sent evs = [ResponseCherrypickCommit es]
        \<and> outcomes evs = map (Inr \<circ> E) es
        \<and> calls evs =
             (dataSource_cherrypickCommit,
                [S repo, S commitHash, N parentIndex, B recordOrigin, B noCommit])
             # (if es ! 0 = None \<and> noCommit then [(utils_viewScm, [])] else [])
        \<and> (\<forall>k < length es. es ! k \<noteq> None \<longrightarrow> length es = Suc k))
   \<and> (msg = RequestCreatePullRequest repo prConfig sourceOwner sourceRepo sourceBranch
                sourceRemote push \<longrightarrow>
        sent evs = [ResponseCreatePullRequest push ((if push then [] else [None]) @ es)]
        \<and> outcomes evs = map (Inr \<circ> E) es
        \<and> calls evs =
             (if push
              then [(dataSource_pushBranch,
                     [S repo, S sourceBranch, S sourceRemote, B True,
                      Mode GitPushBranchMode.Normal])]
              else [])
             @ (if ((if push then [] else [None]) @ es) ! 0 = None
                then [(utils_createPullRequest,
                       [J prConfig, S sourceOwner, S sourceRepo, S sourceBranch])]
                else [])
        \<and> (\<forall>k < length ((if push then [] else [None]) @ es).
              ((if push then [] else [None]) @ es) ! k \<noteq> None
              \<longrightarrow> length ((if push then [] else [None]) @ es) = Suc k))
   \<and> (msg = RequestEditUserDetails repo name email location deleteLocalName
                deleteLocalEmail \<longrightarrow>
        sent evs = [ResponseEditUserDetails es]
        \<and> outcomes evs = map (Inr \<circ> E) es
        \<and> calls evs =
             [(dataSource_setConfigValue,
                 [S repo, S (GIT_CONFIG_USER_NAME env), S name, Loc location]),
              (dataSource_setConfigValue,
                 [S repo, S (GIT_CONFIG_USER_EMAIL env), S email, Loc location])]
             @ (if es ! 0 = None \<and> es ! 1 = None
                then (if deleteLocalName
                      then [(dataSource_unsetConfigValue,
                             [S repo, S (GIT_CONFIG_USER_NAME env), Loc Local])]
                      else [])
                   @ (if deleteLocalEmail
                      then [(dataSource_unsetConfigValue,
                             [S repo, S (GIT_CONFIG_USER_EMAIL env), Loc Local])]
                      else [])
                else []))"
proof (intro conjI impI; (unfold evs_def es_def)?)
  assume m: "msg = RequestAddTag repo tagName commitHash lightweight message pushToRemote"
  note r = addTag_run[OF assms(1)[unfolded m]]
  from r show "sent (emitted s s') = [ResponseAddTag (errorInfos (emitted s s'))]" by simp
  from r show "outcomes (emitted s s') = map (Inr \<circ> E) (errorInfos (emitted s s'))" by simp
  from r show "calls (emitted s s') =
             (dataSource_addTag, [S repo, S tagName, S commitHash, B lightweight, S message])
             # (if errorInfos (emitted s s') ! 0 = None \<and> pushToRemote \<noteq> None
                then [(dataSource_pushTag, [S repo, S tagName, SN pushToRemote])] else [])"
    by simp
  from r show "\<forall>k < length (errorInfos (emitted s s')).
      errorInfos (emitted s s') ! k \<noteq> None \<longrightarrow> length (errorInfos (emitted s s')) = Suc k"
    by simp
next
  assume m: "msg = RequestCherrypickCommit repo commitHash parentIndex recordOrigin noCommit"
  note r = cherrypickCommit_run[OF assms(1)[unfolded m]]
  from r show "sent (emitted s s') = [ResponseCherrypickCommit (errorInfos (emitted s s'))]"
    by simp
  from r show "outcomes (emitted s s') = map (Inr \<circ> E) (errorInfos (emitted s s'))" by simp
  from r show "calls (emitted s s') =
             (dataSource_cherrypickCommit,
                [S repo, S commitHash, N parentIndex, B recordOrigin, B noCommit])
             # (if errorInfos (emitted s s') ! 0 = None \<and> noCommit
                then [(utils_viewScm, [])] else [])"
    by simp
  from r show "\<forall>k < length (errorInfos (emitted s s')).
      errorInfos (emitted s s') ! k \<noteq> None \<longrightarrow> length (errorInfos (emitted s s')) = Suc k"
    by simp
next
  assume m: "msg = RequestCreatePullRequest repo prConfig sourceOwner sourceRepo sourceBranch
                sourceRemote push"
  note r = createPullRequest_run[OF assms(1)[unfolded m]]
  from r show "sent (emitted s s') =
      [ResponseCreatePullRequest push ((if push then [] else [None]) @ errorInfos (emitted s s'))]"
    by simp
  from r show "outcomes (emitted s s') = map (Inr \<circ> E) (errorInfos (emitted s s'))" by simp
  from r show "calls (emitted s s') =
             (if push
              then [(dataSource_pushBranch,
                     [S repo, S sourceBranch, S sourceRemote, B True,
                      Mode GitPushBranchMode.Normal])]
              else [])
             @ (if ((if push then [] else [None]) @ errorInfos (emitted s s')) ! 0 = None
                then [(utils_createPullRequest,
                       [J prConfig, S sourceOwner, S sourceRepo, S sourceBranch])]
                else [])"
    by simp
  from r show "\<forall>k < length ((if push then [] else [None]) @ errorInfos (emitted s s')).
              ((if push then [] else [None]) @ errorInfos (emitted s s')) ! k \<noteq> None
              \<longrightarrow> length ((if push then [] else [None]) @ errorInfos (emitted s s')) = Suc k"
    by simp
next
  assume m: "msg = RequestEditUserDetails repo name email location deleteLocalName
                deleteLocalEmail"
  note r = editUserDetails_run[OF assms(1)[unfolded m]]
  from r show "sent (emitted s s') = [ResponseEditUserDetails (errorInfos (emitted s s'))]"
    by simp
  from r show "outcomes (emitted s s') = map (Inr \<circ> E) (errorInfos (emitted s s'))" by simp
  from r show "calls (emitted s s') =
             [(dataSource_setConfigValue,
                 [S repo, S (GIT_CONFIG_USER_NAME env), S name, Loc location]),
              (dataSource_setConfigValue,
                 [S repo, S (GIT_CONFIG_USER_EMAIL env), S email, Loc location])]
             @ (if errorInfos (emitted s s') ! 0 = None \<and> errorInfos (emitted s s') ! 1 = None
                then (if deleteLocalName
                      then [(dataSource_unsetConfigValue,
                             [S repo, S (GIT_CONFIG_USER_NAME env), Loc Local])]
                      else [])
                   @ (if deleteLocalEmail
                      then [(dataSource_unsetConfigValue,
                             [S repo, S (GIT_CONFIG_USER_EMAIL env), Loc Local])]
                      else [])
                else [])"
    by simp
qed

text \<open>
  A tag that is created and whose push fails: two entries, the second the failure. An
  identity edit where setting the email fails: two entries, and no local value is unset
  although both were asked for.
\<close>

theorem short_circuit_witness:
  "sent (emitted view0 (snd (respondToMessage
      (stub (\<lambda>c a. if c = dataSource_pushTag then Inr (Some ''error: failed to push'')
                    else Inr None))
      (RequestAddTag ''/repo'' ''v1.0'' ''1a2b3c'' True [] (Some ''origin'')) view0)))
     = [ResponseAddTag [None, Some ''error: failed to push'']]
   \<and> sent (emitted view0 (snd (respondToMessage
      (stub (\<lambda>c a. if a = [S ''/repo'', S ''user.email'', S ''ada@example.org'', Loc Global]
                    then Inr (Some ''error: could not lock config file'') else Inr None))
      (RequestEditUserDetails ''/repo'' ''Ada'' ''ada@example.org'' Global True True) view0)))
     = [ResponseEditUserDetails [None, Some ''error: could not lock config file'']]
   \<and> calls (emitted view0 (snd (respondToMessage
      (stub (\<lambda>c a. if a = [S ''/repo'', S ''user.email'', S ''ada@example.org'', Loc Global]
                    then Inr (Some ''error: could not lock config file'') else Inr None))
      (RequestEditUserDetails ''/repo'' ''Ada'' ''ada@example.org'' Global True True) view0)))
     = [(dataSource_setConfigValue, [S ''/repo'', S ''user.name'', S ''Ada'', Loc Global]),
        (dataSource_setConfigValue,
           [S ''/repo'', S ''user.email'', S ''ada@example.org'', Loc Global])]"
proof -
  let ?env1 = "stub (\<lambda>c a. if c = dataSource_pushTag then Inr (Some ''error: failed to push'')
                    else Inr None)"
  let ?msg1 = "RequestAddTag ''/repo'' ''v1.0'' ''1a2b3c'' True [] (Some ''origin'')"
  let ?env2 = "stub (\<lambda>c a. if a = [S ''/repo'', S ''user.email'', S ''ada@example.org'', Loc Global]
                    then Inr (Some ''error: could not lock config file'') else Inr None)"
  let ?msg2 = "RequestEditUserDetails ''/repo'' ''Ada'' ''ada@example.org'' Global True True"
  have run1: "respondToMessage ?env1 ?msg1 view0 = (Inr (), snd (respondToMessage ?env1 ?msg1 view0))"
    by (simp add: run_defs)
  have es1: "errorInfos (emitted view0 (snd (respondToMessage ?env1 ?msg1 view0)))
      = [None, Some ''error: failed to push'']"
    by (simp add: run_defs)
  have run2: "respondToMessage ?env2 ?msg2 view0 = (Inr (), snd (respondToMessage ?env2 ?msg2 view0))"
    by (simp add: run_defs)
  have es2: "errorInfos (emitted view0 (snd (respondToMessage ?env2 ?msg2 view0)))
      = [None, Some ''error: could not lock config file'']"
    by (simp add: run_defs)
  from short_circuit[OF run1, of "''/repo''" "''v1.0''" "''1a2b3c''" True "[]" "Some ''origin''"]
    short_circuit[OF run2, where name = "''Ada''" and email = "''ada@example.org''"
      and repo = "''/repo''" and location = Global and deleteLocalName = True
      and deleteLocalEmail = True]
    es1 es2
  show ?thesis
    by (simp add: stub_def)
qed







subsection \<open>Loading the repository info and the commits\<close>

text \<open>
  The \<open>case\<close> of \<open>loadRepoInfo\<close>, written out: the query, the probe \<open>repoRoot\<close> when the
  query's \<open>error\<close> is truthy, the response, and the change of the current repository.
\<close>

lemma loadRepoInfo_unfold:
  "respondToMessage env (RequestLoadRepoInfo refreshId repo showRemoteBranches hideRemotes) s =
     (let args = [S repo, B showRemoteBranches, SL hideRemotes];
          h0 = effects s @ [WatcherMute]
      in case awaitRepoInfo env dataSource_getRepoInfo args h0 of
           Inl r \<Rightarrow>
             (Inl r, s\<lparr>loadRepoInfoRefreshId := refreshId,
                       effects := h0 @ [Called dataSource_getRepoInfo args (Inl r)]\<rparr>)
         | Inr info \<Rightarrow>
             let h1 = h0 @ [Called dataSource_getRepoInfo args (Inr (Info info))]
             in if truthy (error info)
                then (case awaitString env dataSource_repoRoot [S repo] h1 of
                        Inl r \<Rightarrow>
                          (Inl r, s\<lparr>loadRepoInfoRefreshId := refreshId,
                                    effects := h1 @ [Called dataSource_repoRoot [S repo] (Inl r)]\<rparr>)
                      | Inr root \<Rightarrow>
                          (Inr (), s\<lparr>loadRepoInfoRefreshId := refreshId,
                                     currentRepo := Some repo,
                                     effects := h1
                                       @ [Called dataSource_repoRoot [S repo] (Inr (SN root)),
                                          PostMessage (ResponseLoadRepoInfo refreshId
                                            (if root = None then info\<lparr>error := None\<rparr> else info)
                                            (root \<noteq> None))]
                                       @ loadRepoInfo_tail repo s\<rparr>))
                else (Inr (), s\<lparr>loadRepoInfoRefreshId := refreshId,
                                 currentRepo := Some repo,
                                 effects := h1
                                   @ [PostMessage (ResponseLoadRepoInfo refreshId info True)]
                                   @ loadRepoInfo_tail repo s\<rparr>))"
  by (simp add: respondToMessage_def prog_defs Let_def loadRepoInfo_tail_def
        split: sum.splits)


lemma loadRepoInfo_cases:
  assumes "respondToMessage env (RequestLoadRepoInfo refreshId repo showRemoteBranches hideRemotes) s = (out, s')"
  obtains
    (query_rejected) r where "out = Inl r"
      "s' = s\<lparr>loadRepoInfoRefreshId := refreshId,
                effects := effects s @ [WatcherMute,
                  Called dataSource_getRepoInfo [S repo, B showRemoteBranches, SL hideRemotes] (Inl r)]\<rparr>"
  | (probe_rejected) info r where "truthy (error info)" "out = Inl r"
      "s' = s\<lparr>loadRepoInfoRefreshId := refreshId,
                effects := effects s @ [WatcherMute,
                  Called dataSource_getRepoInfo [S repo, B showRemoteBranches, SL hideRemotes]
                    (Inr (Info info)),
                  Called dataSource_repoRoot [S repo] (Inl r)]\<rparr>"
  | (probed) info root where "truthy (error info)" "out = Inr ()"
      "s' = s\<lparr>loadRepoInfoRefreshId := refreshId, currentRepo := Some repo,
                effects := effects s @ [WatcherMute,
                  Called dataSource_getRepoInfo [S repo, B showRemoteBranches, SL hideRemotes]
                    (Inr (Info info)),
                  Called dataSource_repoRoot [S repo] (Inr (SN root)),
                  PostMessage (ResponseLoadRepoInfo refreshId
                    (if root = None then info\<lparr>error := None\<rparr> else info) (root \<noteq> None))]
                  @ loadRepoInfo_tail repo s\<rparr>"
  | (not_probed) info where "\<not> truthy (error info)" "out = Inr ()"
      "s' = s\<lparr>loadRepoInfoRefreshId := refreshId, currentRepo := Some repo,
                effects := effects s @ [WatcherMute,
                  Called dataSource_getRepoInfo [S repo, B showRemoteBranches, SL hideRemotes]
                    (Inr (Info info)),
                  PostMessage (ResponseLoadRepoInfo refreshId info True)]
                  @ loadRepoInfo_tail repo s\<rparr>"
proof -
  let ?args = "[S repo, B showRemoteBranches, SL hideRemotes]"
  let ?h0 = "effects s @ [WatcherMute]"
  show ?thesis
  proof (cases "awaitRepoInfo env dataSource_getRepoInfo ?args ?h0")
    case (Inl r)
    with assms have "out = Inl r \<and> s' = s\<lparr>loadRepoInfoRefreshId := refreshId,
                effects := effects s @ [WatcherMute,
                  Called dataSource_getRepoInfo ?args (Inl r)]\<rparr>"
      by (auto simp: loadRepoInfo_unfold Let_def)
    then show ?thesis using query_rejected by blast
  next
    case (Inr info)
    let ?h1 = "?h0 @ [Called dataSource_getRepoInfo ?args (Inr (Info info))]"
    show ?thesis
    proof (cases "truthy (error info)")
      case True
      show ?thesis
      proof (cases "awaitString env dataSource_repoRoot [S repo] ?h1")
        case (Inl r)
        with assms Inr True have "out = Inl r \<and> s' = s\<lparr>loadRepoInfoRefreshId := refreshId,
                effects := effects s @ [WatcherMute,
                  Called dataSource_getRepoInfo ?args (Inr (Info info)),
                  Called dataSource_repoRoot [S repo] (Inl r)]\<rparr>"
          by (auto simp: loadRepoInfo_unfold Let_def)
        with True show ?thesis using probe_rejected by blast
      next
        case root: (Inr root)
        with assms Inr True have "out = Inr () \<and> s' = s\<lparr>loadRepoInfoRefreshId := refreshId,
                currentRepo := Some repo,
                effects := effects s @ [WatcherMute,
                  Called dataSource_getRepoInfo ?args (Inr (Info info)),
                  Called dataSource_repoRoot [S repo] (Inr (SN root)),
                  PostMessage (ResponseLoadRepoInfo refreshId
                    (if root = None then info\<lparr>error := None\<rparr> else info) (root \<noteq> None))]
                  @ loadRepoInfo_tail repo s\<rparr>"
          by (auto simp: loadRepoInfo_unfold Let_def)
        with True show ?thesis using probed by blast
      qed
    next
      case False
      with assms Inr have "out = Inr () \<and> s' = s\<lparr>loadRepoInfoRefreshId := refreshId,
                currentRepo := Some repo,
                effects := effects s @ [WatcherMute,
                  Called dataSource_getRepoInfo ?args (Inr (Info info)),
                  PostMessage (ResponseLoadRepoInfo refreshId info True)]
                  @ loadRepoInfo_tail repo s\<rparr>"
        by (auto simp: loadRepoInfo_unfold Let_def)
      with False show ?thesis using not_probed by blast
    qed
  qed
qed







subsection \<open>What a request may change\<close>

lemma loop_frame:
  "deleteOnRemotes_loop env repo branchName remotes acc s = (out, s') \<Longrightarrow>
     \<exists>evs. s' = s\<lparr>effects := effects s @ evs\<rparr>"
proof (induction remotes arbitrary: acc s)
  case Nil
  then show ?case by (auto simp: prog_defs intro: exI[of _ "[]"])
next
  case (Cons remote remotes)
  let ?args = "[S repo, S branchName, S remote]"
  show ?case
  proof (cases "awaitErrorInfo env dataSource_deleteRemoteBranch ?args (effects s)")
    case (Inl r)
    with Cons.prems show ?thesis
      by (auto simp: prog_defs Let_def)
  next
    case (Inr e)
    with Cons.prems have
      "deleteOnRemotes_loop env repo branchName remotes (acc @ [e])
         (s\<lparr>effects := effects s @ [Called dataSource_deleteRemoteBranch ?args (Inr (E e))]\<rparr>)
       = (out, s')"
      by (auto simp: prog_defs Let_def)
    from Cons.IH[OF this] obtain evs where
      "s' = s\<lparr>effects := effects s
               @ Called dataSource_deleteRemoteBranch ?args (Inr (E e)) # evs\<rparr>"
      by auto
    then show ?thesis by blast
  qed
qed

lemma switch_isGraphViewLoaded:
  "respondToMessage_switch env msg s = (out, s') \<Longrightarrow> isGraphViewLoaded s' = isGraphViewLoaded s"
proof (cases msg)
  case (RequestDeleteBranch repo branchName forceDelete deleteOnRemotes)
  assume run: "respondToMessage_switch env msg s = (out, s')"
  let ?args = "[S repo, S branchName, B forceDelete]"
  show ?thesis
  proof (cases "awaitErrorInfo env dataSource_deleteBranch ?args (effects s)")
    case (Inl r)
    with run RequestDeleteBranch show ?thesis
      by (auto simp: prog_defs Let_def)
  next
    case (Inr e0)
    define s1 where
      "s1 = s\<lparr>effects := effects s @ [Called dataSource_deleteBranch ?args (Inr (E e0))]\<rparr>"
    obtain out1 s2 where
      loop: "deleteOnRemotes_loop env repo branchName deleteOnRemotes [e0] s1 = (out1, s2)"
      by (cases "deleteOnRemotes_loop env repo branchName deleteOnRemotes [e0] s1")
    from loop_frame[OF loop] obtain evs where evs: "s2 = s1\<lparr>effects := effects s1 @ evs\<rparr>"
      by blast
    from run RequestDeleteBranch Inr loop s1_def evs show ?thesis
      by (cases out1) (auto simp: prog_defs Let_def)
  qed
qed (auto simp: prog_defs Let_def split: sum.splits if_splits option.splits prod.splits)

lemma switch_isPanelVisible:
  "respondToMessage_switch env msg s = (out, s') \<Longrightarrow> isPanelVisible s' = isPanelVisible s"
proof (cases msg)
  case (RequestDeleteBranch repo branchName forceDelete deleteOnRemotes)
  assume run: "respondToMessage_switch env msg s = (out, s')"
  let ?args = "[S repo, S branchName, B forceDelete]"
  show ?thesis
  proof (cases "awaitErrorInfo env dataSource_deleteBranch ?args (effects s)")
    case (Inl r)
    with run RequestDeleteBranch show ?thesis
      by (auto simp: prog_defs Let_def)
  next
    case (Inr e0)
    define s1 where
      "s1 = s\<lparr>effects := effects s @ [Called dataSource_deleteBranch ?args (Inr (E e0))]\<rparr>"
    obtain out1 s2 where
      loop: "deleteOnRemotes_loop env repo branchName deleteOnRemotes [e0] s1 = (out1, s2)"
      by (cases "deleteOnRemotes_loop env repo branchName deleteOnRemotes [e0] s1")
    from loop_frame[OF loop] obtain evs where evs: "s2 = s1\<lparr>effects := effects s1 @ evs\<rparr>"
      by blast
    from run RequestDeleteBranch Inr loop s1_def evs show ?thesis
      by (cases out1) (auto simp: prog_defs Let_def)
  qed
qed (auto simp: prog_defs Let_def split: sum.splits if_splits option.splits prod.splits)

lemma switch_currentRepo:
  "respondToMessage_switch env msg s = (out, s') \<Longrightarrow>
     (\<And>a b c d. msg \<noteq> RequestLoadRepoInfo a b c d) \<Longrightarrow> currentRepo s' = currentRepo s"
proof (cases msg)
  case (RequestDeleteBranch repo branchName forceDelete deleteOnRemotes)
  assume run: "respondToMessage_switch env msg s = (out, s')"
  let ?args = "[S repo, S branchName, B forceDelete]"
  show ?thesis
  proof (cases "awaitErrorInfo env dataSource_deleteBranch ?args (effects s)")
    case (Inl r)
    with run RequestDeleteBranch show ?thesis
      by (auto simp: prog_defs Let_def)
  next
    case (Inr e0)
    define s1 where
      "s1 = s\<lparr>effects := effects s @ [Called dataSource_deleteBranch ?args (Inr (E e0))]\<rparr>"
    obtain out1 s2 where
      loop: "deleteOnRemotes_loop env repo branchName deleteOnRemotes [e0] s1 = (out1, s2)"
      by (cases "deleteOnRemotes_loop env repo branchName deleteOnRemotes [e0] s1")
    from loop_frame[OF loop] obtain evs where evs: "s2 = s1\<lparr>effects := effects s1 @ evs\<rparr>"
      by blast
    from run RequestDeleteBranch Inr loop s1_def evs show ?thesis
      by (cases out1) (auto simp: prog_defs Let_def)
  qed
next
  case (RequestLoadRepoInfo a b c d)
  assume "\<And>a b c d. msg \<noteq> RequestLoadRepoInfo a b c d"
  with RequestLoadRepoInfo show ?thesis by blast
qed (auto simp: prog_defs Let_def split: sum.splits if_splits option.splits prod.splits)

text \<open>What a request changes of the three fields.\<close>

lemma request_frame_requests:
  assumes "respondToMessage env msg s = (out, s')"
  shows "isGraphViewLoaded s' = isGraphViewLoaded s \<and> isPanelVisible s' = isPanelVisible s
     \<and> (currentRepo s' \<noteq> currentRepo s \<longrightarrow>
          (\<exists>refreshId repo showRemoteBranches hideRemotes evs.
             msg = RequestLoadRepoInfo refreshId repo showRemoteBranches hideRemotes
             \<and> out = Inr () \<and> currentRepo s' = Some repo
             \<and> emitted s s' = evs @ [Invoked extensionState_setLastActiveRepo [S repo],
                                     WatcherStart repo, WatcherUnmute]))
     \<and> (\<forall>refreshId repo showRemoteBranches hideRemotes.
          msg = RequestLoadRepoInfo refreshId repo showRemoteBranches hideRemotes \<and> out = Inr ()
          \<longrightarrow> currentRepo s' = Some repo)"
proof (cases "\<exists>a b c d. msg = RequestLoadRepoInfo a b c d")
  case True
  then obtain refreshId repo showRemoteBranches hideRemotes where
    m: "msg = RequestLoadRepoInfo refreshId repo showRemoteBranches hideRemotes"
    by blast
  from assms[unfolded m] show ?thesis
  proof (cases rule: loadRepoInfo_cases)
    case (query_rejected r)
    then show ?thesis by (simp add: m)
  next
    case (probe_rejected info r)
    then show ?thesis by (simp add: m)
  next
    case (probed info root)
    then show ?thesis
      by (cases "Some repo = currentRepo s") (auto simp: m emitted_def loadRepoInfo_tail_def)
  next
    case (not_probed info)
    then show ?thesis
      by (cases "Some repo = currentRepo s") (auto simp: m emitted_def loadRepoInfo_tail_def)
  qed
next
  case False
  from assms show ?thesis
  proof (cases rule: respondToMessage_cases)
    case (rejected r)
    from switch_isGraphViewLoaded[OF rejected(2)] switch_isPanelVisible[OF rejected(2)] switch_currentRepo[OF rejected(2)] False rejected(1)
    show ?thesis
      by auto
  next
    case (resolved s1)
    from switch_isGraphViewLoaded[OF resolved(2)] switch_isPanelVisible[OF resolved(2)] switch_currentRepo[OF resolved(2)] False resolved(1,3)
    show ?thesis
      by auto
  qed
qed


text \<open>
  Claim C7 says that only a successful load of the repository info changes \<open>currentRepo\<close>.
  The \<open>case\<close> of \<open>loadRepoInfo\<close> changes it after the response whatever the response says:
  here the repository is gone, the response says \<open>isRepo\<close> false, and \<open>currentRepo\<close> goes
  from \<open>null\<close> to the repository that is gone; the file watcher is started on it.
\<close>

theorem request_frame_counterexample:
  "respondToMessage goneRepo (RequestLoadRepoInfo 7 ''/repo'' True []) view0
   = (Inr (),
      view0\<lparr>currentRepo := Some ''/repo'', loadRepoInfoRefreshId := 7,
        effects :=
          [WatcherMute,
           Called dataSource_getRepoInfo [S ''/repo'', B True, SL []]
             (Inr (Info \<lparr> repoInfoData = ''{}'',
                            error = Some ''fatal: not a git repository'' \<rparr>)),
           Called dataSource_repoRoot [S ''/repo''] (Inr (SN None)),
           PostMessage (ResponseLoadRepoInfo 7 \<lparr> repoInfoData = ''{}'', error = None \<rparr> False),
           Invoked extensionState_setLastActiveRepo [S ''/repo''],
           WatcherStart ''/repo'',
           WatcherUnmute]\<rparr>)
   \<and> currentRepo view0 = None"
  by (simp add: run_defs goneRepo_def truthy_def)

text \<open>
  Claim C7, amended. No request changes \<open>isGraphViewLoaded\<close> or \<open>isPanelVisible\<close>. Only a
  \<open>loadRepoInfo\<close> request changes \<open>currentRepo\<close>: every such request whose dispatch runs to
  its end leaves it at the requested repository, whether the load succeeded or not, and
  when that changes it the dispatch also calls \<open>setLastActiveRepo\<close> and starts the file
  watcher on the repository, just before \<open>unmute()\<close>. The other methods that are neither
  the callback for a change of visibility nor the one for a change of the repositories
  (\<open>respondWithAvatar\<close>, the file watcher's callback, \<open>dispose\<close>, \<open>createOrShow\<close> on an
  existing view) change none of the three fields.
\<close>

theorem request_frame:
  assumes "respondToMessage env msg s = (out, s')"
  shows "isGraphViewLoaded s' = isGraphViewLoaded s \<and> isPanelVisible s' = isPanelVisible s
     \<and> (currentRepo s' \<noteq> currentRepo s \<longrightarrow>
          (\<exists>refreshId repo showRemoteBranches hideRemotes evs.
             msg = RequestLoadRepoInfo refreshId repo showRemoteBranches hideRemotes
             \<and> out = Inr () \<and> currentRepo s' = Some repo
             \<and> emitted s s' = evs @ [Invoked extensionState_setLastActiveRepo [S repo],
                                     WatcherStart repo, WatcherUnmute]))
     \<and> (\<forall>refreshId repo showRemoteBranches hideRemotes.
          msg = RequestLoadRepoInfo refreshId repo showRemoteBranches hideRemotes \<and> out = Inr ()
          \<longrightarrow> currentRepo s' = Some repo)
     \<and> sessionState (snd (respondWithAvatar email img s)) = sessionState s
     \<and> sessionState (snd (onRepoFileChange s)) = sessionState s
     \<and> sessionState (snd (dispose s)) = sessionState s
     \<and> sessionState (snd (createOrShow env2 path target column visible h (Some s)))
         = sessionState s"
proof -
  have "sessionState (snd (respondWithAvatar email img s)) = sessionState s
     \<and> sessionState (snd (onRepoFileChange s)) = sessionState s
     \<and> sessionState (snd (dispose s)) = sessionState s
     \<and> sessionState (snd (createOrShow env2 path target column visible h (Some s)))
         = sessionState s"
    by (simp add: sessionState_def respondWithAvatar_def onRepoFileChange_def dispose_def
          createOrShow_def prog_defs)
  with request_frame_requests[OF assms] show ?thesis
    by blast
qed

text \<open>
  A \<open>loadRepoInfo\<close> request sets \<open>currentRepo\<close>; a \<open>checkoutBranch\<close> request changes none
  of the three fields.
\<close>

theorem request_frame_witness:
  "currentRepo (snd (respondToMessage goneRepo (RequestLoadRepoInfo 7 ''/repo'' True []) view0))
     = Some ''/repo''
   \<and> currentRepo (snd (respondToMessage (stub (\<lambda>c a. Inr None))
        (RequestCheckoutBranch ''/repo'' ''main'' None) view0)) = currentRepo view0
   \<and> isGraphViewLoaded (snd (respondToMessage (stub (\<lambda>c a. Inr None))
        (RequestCheckoutBranch ''/repo'' ''main'' None) view0)) = isGraphViewLoaded view0
   \<and> isPanelVisible (snd (respondToMessage (stub (\<lambda>c a. Inr None))
        (RequestCheckoutBranch ''/repo'' ''main'' None) view0)) = isPanelVisible view0"
proof -
  let ?msg1 = "RequestLoadRepoInfo 7 ''/repo'' True []"
  let ?env2 = "stub (\<lambda>c a. Inr None)"
  let ?msg2 = "RequestCheckoutBranch ''/repo'' ''main'' None"
  have run1: "respondToMessage goneRepo ?msg1 view0
      = (Inr (), snd (respondToMessage goneRepo ?msg1 view0))"
    by (simp add: run_defs goneRepo_def truthy_def)
  have run2: "respondToMessage ?env2 ?msg2 view0
      = (Inr (), snd (respondToMessage ?env2 ?msg2 view0))"
    by (simp add: run_defs)
  from request_frame[OF run1] request_frame[OF run2]
  show ?thesis
    by auto
qed

subsection \<open>Rendering and visibility\<close>

text \<open>
  \<open>getHtmlForWebview\<close> always returns a document; it leaves \<open>isGraphViewLoaded\<close> at
  \<open>numRepos > 0\<close> and \<open>loadViewTo\<close> at \<open>null\<close>, and changes nothing else.
\<close>

lemma numRepos_positive: "(0 < length (remdups (map fst rs))) = (rs \<noteq> [])"
  by simp

lemma getHtmlForWebview_state:
  "snd (getHtmlForWebview env s)
     = s\<lparr>isGraphViewLoaded := (getRepos env (effects s) \<noteq> []), loadViewTo := None\<rparr>"
  by (simp add: getHtmlForWebview_def Let_def)

lemma getHtmlForWebview_resolves:
  "\<exists>html. fst (getHtmlForWebview env s) = Inr html"
  by (simp add: getHtmlForWebview_def Let_def)

lemma getHtmlForWebview_body:
  "getHtmlForWebview env s = (Inr html, s') \<Longrightarrow>
     (case html_body html of
        BodyUnableToFindGit colorVars message \<Rightarrow> isGitExecutableUnknown env (effects s)
      | BodyGitGraph colorVars nonce globalState initialState script \<Rightarrow>
          \<not> isGitExecutableUnknown env (effects s) \<and> getRepos env (effects s) \<noteq> []
          \<and> initialState_loadViewTo initialState = loadViewTo s
          \<and> repos initialState = getRepos env (effects s)
          \<and> initialState_loadRepoInfoRefreshId initialState = loadRepoInfoRefreshId s
          \<and> initialState_loadCommitsRefreshId initialState = loadCommitsRefreshId s
      | BodyNoRepos colorVars nonce \<Rightarrow>
          \<not> isGitExecutableUnknown env (effects s) \<and> getRepos env (effects s) = [])"
  by (auto simp: getHtmlForWebview_def Let_def)

text \<open>
  Claim C8. When the panel goes from visible to hidden, the callback of
  \<open>onDidChangeViewState\<close> sets \<open>currentRepo\<close> to \<open>null\<close>, stops the file watcher and records
  the panel as hidden. When it goes from hidden to visible, the callback renders: it sets
  the webview's document to what \<open>getHtmlForWebview\<close> returns, and records the panel as
  visible. When the panel's visibility is the recorded one, the callback changes nothing.
\<close>

theorem visibility_transitions:
  "(isPanelVisible s \<and> \<not> panelVisible s \<longrightarrow>
      onDidChangeViewState env s
        = (Inr (), s\<lparr>currentRepo := None, isPanelVisible := False,
                      effects := effects s @ [WatcherStop]\<rparr>))
   \<and> (\<not> isPanelVisible s \<and> panelVisible s \<longrightarrow>
        (\<exists>html. fst (getHtmlForWebview env s) = Inr html
           \<and> onDidChangeViewState env s
               = (Inr (), s\<lparr>isGraphViewLoaded := (getRepos env (effects s) \<noteq> []),
                             loadViewTo := None, isPanelVisible := True,
                             effects := effects s @ [WebviewHtml html]\<rparr>)))
   \<and> (panelVisible s = isPanelVisible s \<longrightarrow> onDidChangeViewState env s = (Inr (), s))"
  by (auto simp: onDidChangeViewState_def update_def prog_defs getHtmlForWebview_def Let_def)


lemmas render_defs = getHtmlForWebview_def update_def onDidChangeViewState_def
  onDidChangeRepos_def prog_defs stub_def view0_def emitted_def Let_def getMediaUri_def
  getUri_def

text \<open>The three cases on concrete views.\<close>

theorem visibility_transitions_witness:
  "onDidChangeViewState (stub (\<lambda>c a. Inr None))
       (view0\<lparr>currentRepo := Some ''/repo'', panelVisible := False\<rparr>)
     = (Inr (), view0\<lparr>currentRepo := None, isPanelVisible := False, panelVisible := False,
                     effects := [WatcherStop]\<rparr>)
   \<and> (\<exists>html. fst (getHtmlForWebview (stub (\<lambda>c a. Inr None)) hidden0) = Inr html
         \<and> emitted hidden0 (snd (onDidChangeViewState (stub (\<lambda>c a. Inr None)) hidden0))
             = [WebviewHtml html])
   \<and> isPanelVisible (snd (onDidChangeViewState (stub (\<lambda>c a. Inr None)) hidden0))
   \<and> onDidChangeViewState (stub (\<lambda>c a. Inr None)) view0 = (Inr (), view0)"
proof -
  let ?env = "stub (\<lambda>c a. Inr None)"
  let ?s1 = "view0\<lparr>currentRepo := Some ''/repo'', panelVisible := False\<rparr>"
  have a1: "isPanelVisible ?s1 \<and> \<not> panelVisible ?s1" by (simp add: view0_def)
  have a2: "\<not> isPanelVisible hidden0 \<and> panelVisible hidden0" by (simp add: view0_def hidden0_def)
  have a3: "panelVisible view0 = isPanelVisible view0" by (simp add: view0_def)
  from visibility_transitions[of ?s1 ?env] visibility_transitions[of hidden0 ?env]
    visibility_transitions[of view0 ?env] a1 a2 a3
  show ?thesis
    by (auto simp: emitted_def view0_def)
qed

text \<open>
  Claim C9 says that every execution of \<open>getHtmlForWebview\<close> embeds the current
  \<open>loadViewTo\<close> in the initial state it emits. When the Git executable is unknown the
  document is the error page, which carries no initial state: a pending target is in no
  document, and it is reset to \<open>null\<close> all the same.
\<close>

theorem loadViewTo_consumed_counterexample:
  "map_sum id html_body
     (fst (getHtmlForWebview gitUnknown (view0\<lparr>loadViewTo := Some (''/repo'', None)\<rparr>)))
     = Inr (BodyUnableToFindGit
              ''--git-graph-color0:#0085d9; --git-graph-color1:#d9008f; ''
              ''Unable to find a Git executable.'')
   \<and> loadViewTo (view0\<lparr>loadViewTo := Some (''/repo'', None)\<rparr>) = Some (''/repo'', None)
   \<and> loadViewTo
        (snd (getHtmlForWebview gitUnknown (view0\<lparr>loadViewTo := Some (''/repo'', None)\<rparr>)))
       = None"
  by (simp add: render_defs gitUnknown_def)

text \<open>
  Claim C9, amended. Every execution of \<open>getHtmlForWebview\<close> leaves \<open>loadViewTo\<close> at
  \<open>null\<close>. The document with the graph (Git executable known, at least one repository)
  carries an initial state, whose \<open>loadViewTo\<close> is the value the field had before; the two
  error pages carry none, so that a target pending then is dropped. On the next
  execution, whatever the collaborators then answer, a document with an initial state
  carries \<open>loadViewTo\<close> \<open>null\<close>: a target is in at most one document.
\<close>

theorem loadViewTo_consumed:
  assumes "getHtmlForWebview env s = (out, s')"
  shows "loadViewTo s' = None
     \<and> (\<exists>html. out = Inr html \<and>
          (case html_body html of
             BodyUnableToFindGit colorVars message \<Rightarrow> isGitExecutableUnknown env (effects s)
           | BodyGitGraph colorVars nonce globalState initialState script \<Rightarrow>
               initialState_loadViewTo initialState = loadViewTo s
               \<and> \<not> isGitExecutableUnknown env (effects s) \<and> getRepos env (effects s) \<noteq> []
           | BodyNoRepos colorVars nonce \<Rightarrow>
               \<not> isGitExecutableUnknown env (effects s) \<and> getRepos env (effects s) = []))
     \<and> (\<forall>env2 html2 s2. getHtmlForWebview env2 s' = (Inr html2, s2) \<longrightarrow>
          (case html_body html2 of
             BodyUnableToFindGit colorVars message \<Rightarrow> True
           | BodyGitGraph colorVars nonce globalState initialState script \<Rightarrow>
               initialState_loadViewTo initialState = None
           | BodyNoRepos colorVars nonce \<Rightarrow> True))"
proof (intro conjI allI impI)
  from assms have s': "s' = snd (getHtmlForWebview env s)" by simp
  then show l: "loadViewTo s' = None" by (simp add: getHtmlForWebview_state)
  from getHtmlForWebview_resolves[of env s] assms obtain html where out: "out = Inr html"
    by auto
  from getHtmlForWebview_body[OF assms[unfolded out]] out
  show "\<exists>html. out = Inr html \<and>
          (case html_body html of
             BodyUnableToFindGit colorVars message \<Rightarrow> isGitExecutableUnknown env (effects s)
           | BodyGitGraph colorVars nonce globalState initialState script \<Rightarrow>
               initialState_loadViewTo initialState = loadViewTo s
               \<and> \<not> isGitExecutableUnknown env (effects s) \<and> getRepos env (effects s) \<noteq> []
           | BodyNoRepos colorVars nonce \<Rightarrow>
               \<not> isGitExecutableUnknown env (effects s) \<and> getRepos env (effects s) = [])"
    by (auto split: body.splits)
  fix env2 html2 s2
  assume "getHtmlForWebview env2 s' = (Inr html2, s2)"
  from getHtmlForWebview_body[OF this] l
  show "case html_body html2 of
             BodyUnableToFindGit colorVars message \<Rightarrow> True
           | BodyGitGraph colorVars nonce globalState initialState script \<Rightarrow>
               initialState_loadViewTo initialState = None
           | BodyNoRepos colorVars nonce \<Rightarrow> True"
    by (auto split: body.splits)
qed

text \<open>A pending target is embedded in the document with the graph, and reset.\<close>

theorem loadViewTo_consumed_witness:
  "(\<exists>html colorVars nonce globalState initialState script.
      fst (getHtmlForWebview (stub (\<lambda>c a. Inr None))
             (view0\<lparr>loadViewTo := Some (''/repo'', None)\<rparr>)) = Inr html
      \<and> html_body html = BodyGitGraph colorVars nonce globalState initialState script
      \<and> initialState_loadViewTo initialState = Some (''/repo'', None))
   \<and> loadViewTo (snd (getHtmlForWebview (stub (\<lambda>c a. Inr None))
             (view0\<lparr>loadViewTo := Some (''/repo'', None)\<rparr>))) = None"
proof -
  let ?env = "stub (\<lambda>c a. Inr None)"
  let ?s = "view0\<lparr>loadViewTo := Some (''/repo'', None)\<rparr>"
  have run: "getHtmlForWebview ?env ?s
      = (fst (getHtmlForWebview ?env ?s), snd (getHtmlForWebview ?env ?s))"
    by simp
  have known: "\<not> isGitExecutableUnknown ?env (effects ?s)" "getRepos ?env (effects ?s) \<noteq> []"
    "loadViewTo ?s = Some (''/repo'', None)"
    by (simp_all add: stub_def view0_def)
  from loadViewTo_consumed[OF run] obtain html where
    html: "fst (getHtmlForWebview ?env ?s) = Inr html"
      "case html_body html of
         BodyUnableToFindGit colorVars message \<Rightarrow> isGitExecutableUnknown ?env (effects ?s)
       | BodyGitGraph colorVars nonce globalState initialState script \<Rightarrow>
           initialState_loadViewTo initialState = loadViewTo ?s
           \<and> \<not> isGitExecutableUnknown ?env (effects ?s) \<and> getRepos ?env (effects ?s) \<noteq> []
       | BodyNoRepos colorVars nonce \<Rightarrow>
           \<not> isGitExecutableUnknown ?env (effects ?s) \<and> getRepos ?env (effects ?s) = []"
    and cleared: "loadViewTo (snd (getHtmlForWebview ?env ?s)) = None"
    by blast
  from html(2) known have
    "\<exists>colorVars nonce globalState initialState script.
       html_body html = BodyGitGraph colorVars nonce globalState initialState script
       \<and> initialState_loadViewTo initialState = Some (''/repo'', None)"
    by (cases "html_body html") simp_all
  with html(1) cleared show ?thesis
    by blast
qed

text \<open>
  Claim C10. After every execution of \<open>getHtmlForWebview\<close>, \<open>isGraphViewLoaded\<close> says
  whether the set of known repositories is non-empty, also when the Git executable is
  unknown and the document is the error page. The callback of \<open>onDidChangeRepos\<close> that
  runs next on a visible panel therefore renders again exactly when the event's number of
  repositories is zero and that set was non-empty, or is positive and that set was empty,
  and otherwise posts the list of repositories.
\<close>

theorem isGraphViewLoaded_counts_repos:
  "isGraphViewLoaded (snd (getHtmlForWebview env s)) = (getRepos env (effects s) \<noteq> [])
   \<and> (isGitExecutableUnknown env (effects s) \<longrightarrow>
        (\<exists>html colorVars message. fst (getHtmlForWebview env s) = Inr html
           \<and> html_body html = BodyUnableToFindGit colorVars message))
   \<and> (panelVisible s \<longrightarrow>
        onDidChangeRepos env2 ev (snd (getHtmlForWebview env s)) =
          (let s' = snd (getHtmlForWebview env s);
               target = (case event_loadRepo ev of Some r \<Rightarrow> Some (r, None) | None \<Rightarrow> None)
           in if (event_numRepos ev = 0 \<and> getRepos env (effects s) \<noteq> [])
                 \<or> (event_numRepos ev > 0 \<and> getRepos env (effects s) = [])
              then update env2 (s'\<lparr>loadViewTo := target\<rparr>)
              else respondLoadRepos env2 (event_repos ev) target s'))"
  by (auto simp: getHtmlForWebview_state onDidChangeRepos_def prog_defs Let_def)
     (simp_all add: getHtmlForWebview_def Let_def)

text \<open>
  With the Git executable unknown and one repository known, the error page is rendered
  and the flag is set; a change to two repositories then posts the list and does not
  render.
\<close>

theorem isGraphViewLoaded_counts_repos_witness:
  "isGraphViewLoaded (snd (getHtmlForWebview gitUnknown (view0\<lparr>isGraphViewLoaded := False\<rparr>)))
   \<and> (\<exists>html colorVars message.
         fst (getHtmlForWebview gitUnknown (view0\<lparr>isGraphViewLoaded := False\<rparr>)) = Inr html
         \<and> html_body html = BodyUnableToFindGit colorVars message)
   \<and> onDidChangeRepos gitUnknown
        \<lparr> event_repos = [(''/repo'', ''{}''), (''/other'', ''{}'')], event_numRepos = 2,
          event_loadRepo = None \<rparr>
        (snd (getHtmlForWebview gitUnknown (view0\<lparr>isGraphViewLoaded := False\<rparr>)))
      = (Inr (),
         view0\<lparr>effects :=
           [PostMessage (ResponseLoadRepos [(''/repo'', ''{}''), (''/other'', ''{}'')] None None)]\<rparr>)"
proof -
  let ?s = "view0\<lparr>isGraphViewLoaded := False\<rparr>"
  let ?ev = "\<lparr> event_repos = [(''/repo'', ''{}''), (''/other'', ''{}'')], event_numRepos = 2,
          event_loadRepo = None \<rparr>"
  have pre: "isGitExecutableUnknown gitUnknown (effects ?s)" "panelVisible ?s"
    "getRepos gitUnknown (effects ?s) \<noteq> []"
    by (simp_all add: gitUnknown_def stub_def view0_def)
  have st: "snd (getHtmlForWebview gitUnknown ?s) = view0"
    by (simp add: getHtmlForWebview_state gitUnknown_def stub_def view0_def)
  have post: "respondLoadRepos gitUnknown (event_repos ?ev) None view0
      = (Inr (),
         view0\<lparr>effects :=
           [PostMessage (ResponseLoadRepos [(''/repo'', ''{}''), (''/other'', ''{}'')] None None)]\<rparr>)"
    by (simp add: prog_defs gitUnknown_def stub_def view0_def)
  from isGraphViewLoaded_counts_repos[of gitUnknown ?s gitUnknown ?ev] pre st post
  show ?thesis
    by (simp add: Let_def)
qed

end
